theory Spec2Isabelle
  imports Complex_Main
begin

section \<open>Python values, errors and configuration\<close>

text \<open>
  The fee engine of \<^verbatim>\<open>production_models.py\<close> and \<^verbatim>\<open>ml_models.py\<close> computes on Python
  floats. They are idealised as reals: rounding error, infinities and NaN are not
  modelled. Dictionaries holding dynamically typed values (the market snapshot, the
  prediction result) are association lists in insertion order.
\<close>

datatype py_error = TypeError | AttributeError | KeyError | ZeroDivisionError | OverflowError | OtherError

datatype pyval = PyNone | PyNum real | PyStr string | PyDict "(string \<times> pyval) list"

type_synonym pydict = "(string \<times> pyval) list"

text \<open>\<^verbatim>\<open>Config.BASE_FEE_RATE\<close> is read from the environment (default 0.3).\<close>

record config =
  BASE_FEE_RATE :: real

text \<open>Python's truth value of an object, as tested by \<^verbatim>\<open>if not coingecko\<close>.\<close>

fun truthy :: "pyval \<Rightarrow> bool" where
  "truthy PyNone = False"
| "truthy (PyNum x) = (x \<noteq> 0)"
| "truthy (PyStr s) = (s \<noteq> [])"
| "truthy (PyDict d) = (d \<noteq> [])"

text \<open>\<^verbatim>\<open>d.get(k, default)\<close> on a dictionary.\<close>

definition dict_get :: "pydict \<Rightarrow> string \<Rightarrow> pyval \<Rightarrow> pyval" where
  "dict_get d k dflt = (case map_of d k of None \<Rightarrow> dflt | Some v \<Rightarrow> v)"

text \<open>\<^verbatim>\<open>obj.get(k, default)\<close> on any object: only a dictionary has the method.\<close>

fun py_get :: "pyval \<Rightarrow> string \<Rightarrow> pyval \<Rightarrow> py_error + pyval" where
  "py_get (PyDict d) k dflt = Inr (dict_get d k dflt)"
| "py_get v k dflt = Inl AttributeError"

text \<open>Arithmetic and ordering with a float operand need a number on the other side.\<close>

fun as_num :: "pyval \<Rightarrow> py_error + real" where
  "as_num (PyNum x) = Inr x"
| "as_num v = Inl TypeError"

text \<open>Sequencing of steps that may raise: the first exception ends the computation.\<close>

definition bind_err :: "py_error + 'a \<Rightarrow> ('a \<Rightarrow> py_error + 'b) \<Rightarrow> py_error + 'b" where
  "bind_err m f = (case m of Inl e \<Rightarrow> Inl e | Inr v \<Rightarrow> f v)"

section \<open>The feature vector\<close>

text \<open>One row with the fourteen columns of \<^verbatim>\<open>feature_columns\<close>, in their order.\<close>

record features =
  volatility :: real
  volume_24h :: real
  price_change_1h :: real
  price_change_24h :: real
  market_cap :: real
  gas_price_gwei :: real
  liquidity_score :: real
  hour_of_day :: int
  day_of_week :: int
  volume_ma_7d :: real
  volatility_ma_7d :: real
  price_momentum :: real
  volume_ratio :: real
  gas_trend :: real

section \<open>The random number generator\<close>

text \<open>
  \<^verbatim>\<open>numpy.random\<close> is a library outside the repository: its samplers are parameters.
  Each sampler reads the global generator state and returns the draw with the next state;
  \<^verbatim>\<open>np.random.seed(s)\<close> replaces the state, whatever it was.
\<close>

record 'g np_random =
  seed :: "nat \<Rightarrow> 'g"
  exponential :: "real \<Rightarrow> 'g \<Rightarrow> real \<times> 'g"
  lognormal :: "real \<Rightarrow> real \<Rightarrow> 'g \<Rightarrow> real \<times> 'g"
  normal :: "real \<Rightarrow> real \<Rightarrow> 'g \<Rightarrow> real \<times> 'g"
  uniform :: "real \<Rightarrow> real \<Rightarrow> 'g \<Rightarrow> real \<times> 'g"
  randint :: "int \<Rightarrow> int \<Rightarrow> 'g \<Rightarrow> int \<times> 'g"

section \<open>The optimal-fee oracle (production\_models.py, lines 250-351)\<close>

definition vol_factor :: "features \<Rightarrow> real" where
  "vol_factor row =
     (if volatility row > 15 then 1.5 + (volatility row - 15) * 0.08
      else if volatility row > 8 then 1.2 + (volatility row - 8) * 0.04
      else if volatility row < 2 then 0.7 + volatility row * 0.1
      else 0.9 + (volatility row - 2) * 0.05)"

definition volume_factor :: "features \<Rightarrow> real" where
  "volume_factor row =
     (if volume_ratio row > 1.5 then 0.85
      else if volume_ratio row > 1.2 then 0.95 - (volume_ratio row - 1.2) * 0.33
      else if volume_ratio row < 0.6 then 1.25
      else if volume_ratio row < 0.8 then 1.1 + (0.8 - volume_ratio row) * 0.75
      else 1.0)"

definition gas_factor :: "features \<Rightarrow> real" where
  "gas_factor row =
     (if gas_trend row > 0.5 then 1.3 + gas_trend row * 0.4
      else if gas_trend row > 0.2 then 1.1 + gas_trend row * 0.5
      else if gas_trend row < - 0.2 then 0.9 + gas_trend row * 0.2
      else 1.0 + gas_trend row * 0.3)"

definition time_factor :: "features \<Rightarrow> real" where
  "time_factor row =
     (let time_factor0 =
        (if hour_of_day row \<in> {14, 15, 16} then 1.15
         else if hour_of_day row \<in> {21, 22} then 1.08
         else if hour_of_day row \<in> {2, 3, 4, 5} then 0.85
         else 1.0)
      in if day_of_week row \<in> {5, 6} then time_factor0 * 0.92 else time_factor0)"

definition momentum_factor :: "features \<Rightarrow> real" where
  "momentum_factor row = 1 + min (\<bar>price_momentum row\<bar> / 10) 0.3"

definition liquidity_factor :: "features \<Rightarrow> real" where
  "liquidity_factor row =
     (if liquidity_score row > 8 then 0.9
      else if liquidity_score row > 4 then 0.95
      else if liquidity_score row < 1 then 1.2
      else if liquidity_score row < 2 then 1.1
      else 1.0)"

definition stability_factor :: "features \<Rightarrow> real" where
  "stability_factor row =
     (if \<bar>price_change_24h row\<bar> > 10 then 1.1 + (\<bar>price_change_24h row\<bar> - 10) * 0.02
      else if \<bar>price_change_24h row\<bar> < 1 then 0.95
      else 1.0)"

text \<open>The body of the oracle after its noise term has been drawn.\<close>

definition optimal_fee_of_noise :: "config \<Rightarrow> features \<Rightarrow> real \<Rightarrow> real" where
  "optimal_fee_of_noise cfg row noise =
     (let base_fee = BASE_FEE_RATE cfg;
          optimal_fee = base_fee *
            (vol_factor row * 0.35 +
             volume_factor row * 0.25 +
             gas_factor row * 0.20 +
             time_factor row * 0.10 +
             momentum_factor row * 0.05 +
             liquidity_factor row * 0.03 +
             stability_factor row * 0.02);
          optimal_fee = optimal_fee + noise
      in max 0.05 (min optimal_fee 2.5))"

definition calculate_sophisticated_optimal_fee ::
  "'g np_random \<Rightarrow> config \<Rightarrow> features \<Rightarrow> 'g \<Rightarrow> real \<times> 'g" where
  "calculate_sophisticated_optimal_fee rng cfg row g =
     (let (noise, g') = normal rng 0 0.015 g
      in (optimal_fee_of_noise cfg row noise, g'))"

section \<open>The optimal-fee oracle of the advanced variant (ml\_models.py, lines 210-268)\<close>

text \<open>
  \<^verbatim>\<open>(volatility - 10) ** 1.2\<close> is evaluated only where its base is positive, where
  Python's float power is the real power.
\<close>

definition advanced_optimal_fee_of_noise :: "config \<Rightarrow> features \<Rightarrow> real \<Rightarrow> real" where
  "advanced_optimal_fee_of_noise cfg row noise =
     (let base_fee = BASE_FEE_RATE cfg;
          volatility_factor =
            (if volatility row > 10 then 1 + (volatility row - 10) powr 1.2 * 0.05
             else if volatility row < 2 then 0.8
             else 1 + (volatility row - 5) * 0.02);
          volume_factor =
            (if volume_ratio row > 1.2 then 0.9
             else if volume_ratio row < 0.8 then 1.1
             else 1.0);
          gas_factor = 1 + gas_trend row * 0.3;
          time_factor =
            (if hour_of_day row \<in> {9, 10, 16, 17} then 1.1
             else if hour_of_day row \<in> {2, 3, 4, 5} then 0.9
             else 1.0);
          liquidity_factor =
            (if liquidity_score row > 5 then 0.95
             else if liquidity_score row < 1 then 1.15
             else 1.0);
          momentum = \<bar>price_momentum row\<bar>;
          momentum_factor = 1 + momentum * 0.01;
          optimal_fee = base_fee * volatility_factor * volume_factor * gas_factor
                          * time_factor * liquidity_factor * momentum_factor;
          optimal_fee = optimal_fee + noise
      in max 0.05 (min optimal_fee 3.0))"

definition advanced_calculate_sophisticated_optimal_fee ::
  "'g np_random \<Rightarrow> config \<Rightarrow> features \<Rightarrow> 'g \<Rightarrow> real \<times> 'g" where
  "advanced_calculate_sophisticated_optimal_fee rng cfg row g =
     (let (noise, g') = normal rng 0 0.02 g
      in (advanced_optimal_fee_of_noise cfg row noise, g'))"

section \<open>The confidence scorer (production\_models.py, lines 693-726)\<close>

definition base_confidence :: "string \<Rightarrow> real" where
  "base_confidence model_name =
     (case map_of [(''random_forest'', 0.87), (''gradient_boosting'', 0.84),
                   (''neural_network'', 0.81)] model_name of
        None \<Rightarrow> 0.75 | Some c \<Rightarrow> c)"

definition confidence_adjustments :: "features \<Rightarrow> real" where
  "confidence_adjustments row =
     (let confidence_adjustments = 0;
          confidence_adjustments =
            (if volatility row > 20 then confidence_adjustments - 0.15
             else if volatility row > 12 then confidence_adjustments - 0.08
             else if volatility row < 2 then confidence_adjustments + 0.05
             else confidence_adjustments);
          confidence_adjustments =
            (if volume_ratio row > 2.0 \<or> volume_ratio row < 0.4
             then confidence_adjustments - 0.08 else confidence_adjustments);
          confidence_adjustments =
            (if \<bar>gas_trend row\<bar> > 0.7
             then confidence_adjustments - 0.06 else confidence_adjustments)
      in confidence_adjustments)"

definition calculate_model_confidence :: "string \<Rightarrow> features \<Rightarrow> real" where
  "calculate_model_confidence model_name row =
     (let final_confidence = base_confidence model_name + confidence_adjustments row
      in max 0.4 (min final_confidence 0.95))"



section \<open>The market condition classifier (production\_models.py, lines 782-803)\<close>

definition classify_market_condition :: "features \<Rightarrow> string" where
  "classify_market_condition row =
     (if volatility row > 20 \<and> \<bar>price_change_24h row\<bar> > 15 then ''extreme_volatility''
      else if volatility row > 12 \<and> gas_trend row > 0.4 then ''high_volatility_congested''
      else if volatility row > 8 then ''high_volatility''
      else if volatility row < 2 \<and> volume_ratio row > 1.2 then ''stable_liquid''
      else if volatility row < 3 then ''stable''
      else if gas_trend row > 0.6 then ''network_congested''
      else ''moderate'')"

text \<open>
  The decision table as the specification words it: an ordered list of rules over the four
  inputs, evaluated top-down, the first rule that matches giving the label, and a default.
\<close>

type_synonym rule = "(real \<Rightarrow> real \<Rightarrow> real \<Rightarrow> real \<Rightarrow> bool) \<times> string"

definition market_rules :: "rule list" where
  "market_rules =
     [(\<lambda>v vr gt pc. v > 20 \<and> pc > 15, ''extreme_volatility''),
      (\<lambda>v vr gt pc. v > 12 \<and> gt > 0.4, ''high_volatility_congested''),
      (\<lambda>v vr gt pc. v > 8, ''high_volatility''),
      (\<lambda>v vr gt pc. v < 2 \<and> vr > 1.2, ''stable_liquid''),
      (\<lambda>v vr gt pc. v < 3, ''stable''),
      (\<lambda>v vr gt pc. gt > 0.6, ''network_congested'')]"

fun first_match :: "rule list \<Rightarrow> string \<Rightarrow> real \<Rightarrow> real \<Rightarrow> real \<Rightarrow> real \<Rightarrow> string" where
  "first_match [] dflt v vr gt pc = dflt"
| "first_match ((p, l) # rs) dflt v vr gt pc =
     (if p v vr gt pc then l else first_match rs dflt v vr gt pc)"

definition market_labels :: "string set" where
  "market_labels =
     {''extreme_volatility'', ''high_volatility_congested'', ''high_volatility'',
      ''stable_liquid'', ''stable'', ''network_congested'', ''moderate''}"

section \<open>Dates and times\<close>

text \<open>
  A naive \<^verbatim>\<open>datetime\<close> is read only through \<^verbatim>\<open>.hour\<close> and \<^verbatim>\<open>.weekday()\<close> and moved
  only by whole hours and days, so it is the number of whole hours elapsed since
  0001-01-01T00:00, a Monday. Python raises OverflowError outside the years 1 to 9999,
  which hold 3652059 days.
\<close>

type_synonym datetime = int

definition hour :: "datetime \<Rightarrow> int" where
  "hour t = t mod 24"

definition weekday :: "datetime \<Rightarrow> int" where
  "weekday t = (t div 24) mod 7"

definition add_hours :: "datetime \<Rightarrow> int \<Rightarrow> py_error + datetime" where
  "add_hours t h = (if 0 \<le> t + h \<and> t + h < 3652059 * 24 then Inr (t + h) else Inl OverflowError)"

section \<open>The live feature codec (production\_models.py, lines 541-596)\<close>

text \<open>The body of the \<^verbatim>\<open>try\<close> block: what it returns, or the exception it raises.\<close>

definition extract_features_body :: "datetime \<Rightarrow> pydict \<Rightarrow> py_error + features option" where
  "extract_features_body now market_data =
     (let coingecko = dict_get market_data ''coingecko'' (PyDict []);
          network = dict_get market_data ''network'' (PyDict [])
      in if \<not> truthy coingecko then Inr None
         else
           bind_err (py_get coingecko ''volatility'' (PyNum 0)) (\<lambda>volatility'.
           bind_err (py_get coingecko ''volume_24h'' (PyNum 0)) (\<lambda>volume_24h'.
           bind_err (py_get coingecko ''price_change_24h'' (PyNum 0)) (\<lambda>price_change_24h'.
           bind_err (py_get coingecko ''market_cap'' (PyNum 0)) (\<lambda>market_cap'.
           bind_err (if truthy network then py_get network ''gas_price_gwei'' (PyNum 28)
                     else Inr (PyNum 28)) (\<lambda>gas_price_gwei'.
           bind_err (as_num market_cap') (\<lambda>market_cap.
           bind_err (as_num volume_24h') (\<lambda>volume_24h.
           bind_err (as_num price_change_24h') (\<lambda>price_change_24h.
           bind_err (as_num volatility') (\<lambda>volatility.
           bind_err (as_num gas_price_gwei') (\<lambda>gas_price_gwei.
             let liquidity_score =
                   (if market_cap > 0 then (volume_24h / max market_cap 1) * 100 else 0);
                 price_change_1h = price_change_24h * 0.08;
                 volume_ma_7d = volume_24h * 0.92;
                 volatility_ma_7d = volatility * 1.08;
                 price_momentum = price_change_24h * 1.15;
                 volume_ratio = (if volume_ma_7d > 0 then volume_24h / volume_ma_7d else 1.0);
                 gas_trend = (gas_price_gwei - 28) / 372
             in Inr (Some
                  \<lparr>volatility = volatility,
                   volume_24h = volume_24h,
                   price_change_1h = price_change_1h,
                   price_change_24h = price_change_24h,
                   market_cap = market_cap,
                   gas_price_gwei = gas_price_gwei,
                   liquidity_score = liquidity_score,
                   hour_of_day = hour now,
                   day_of_week = weekday now,
                   volume_ma_7d = volume_ma_7d,
                   volatility_ma_7d = volatility_ma_7d,
                   price_momentum = price_momentum,
                   volume_ratio = volume_ratio,
                   gas_trend = gas_trend\<rparr>))))))))))))"

text \<open>\<^verbatim>\<open>except Exception\<close>: every exception of the body is logged and becomes \<^verbatim>\<open>None\<close>.\<close>

definition extract_features_from_market_data :: "datetime \<Rightarrow> pydict \<Rightarrow> features option" where
  "extract_features_from_market_data now market_data =
     (case extract_features_body now market_data of Inl e \<Rightarrow> None | Inr r \<Rightarrow> r)"

text \<open>
  The price sub-record is absent when the snapshot has none or a false one (\<^verbatim>\<open>None\<close>,
  an empty dictionary). A snapshot is well typed when the sub-records are dictionaries
  (the network one may also be false) and each value the codec reads is a number. The gas
  price is missing when the network sub-record is false or has no such key.
\<close>

definition is_dict :: "pyval \<Rightarrow> bool" where
  "is_dict v = (case v of PyDict d \<Rightarrow> True | _ \<Rightarrow> False)"

definition is_number :: "pyval \<Rightarrow> bool" where
  "is_number v = (case v of PyNum x \<Rightarrow> True | _ \<Rightarrow> False)"

definition num_of :: "pyval \<Rightarrow> real" where
  "num_of v = (case v of PyNum x \<Rightarrow> x | _ \<Rightarrow> 0)"

definition field_or :: "pyval \<Rightarrow> string \<Rightarrow> pyval \<Rightarrow> pyval" where
  "field_or v k dflt = (case v of PyDict d \<Rightarrow> dict_get d k dflt | _ \<Rightarrow> dflt)"

definition no_coingecko :: "pydict \<Rightarrow> bool" where
  "no_coingecko market_data = (\<not> truthy (dict_get market_data ''coingecko'' (PyDict [])))"

definition well_typed_snapshot :: "pydict \<Rightarrow> bool" where
  "well_typed_snapshot market_data =
     (let coingecko = dict_get market_data ''coingecko'' (PyDict []);
          network = dict_get market_data ''network'' (PyDict [])
      in is_dict coingecko \<and>
         is_number (field_or coingecko ''volatility'' (PyNum 0)) \<and>
         is_number (field_or coingecko ''volume_24h'' (PyNum 0)) \<and>
         is_number (field_or coingecko ''price_change_24h'' (PyNum 0)) \<and>
         is_number (field_or coingecko ''market_cap'' (PyNum 0)) \<and>
         (if truthy network
          then is_dict network \<and> is_number (field_or network ''gas_price_gwei'' (PyNum 28))
          else True))"

definition gas_price_missing :: "pydict \<Rightarrow> bool" where
  "gas_price_missing market_data =
     (let network = dict_get market_data ''network'' (PyDict [])
      in if truthy network
         then (case network of PyDict d \<Rightarrow> map_of d ''gas_price_gwei'' = None | _ \<Rightarrow> False)
         else True)"

section \<open>The reasoning generator (production\_models.py, lines 728-780)\<close>

text \<open>
  \<^verbatim>\<open>np.mean\<close> and \<^verbatim>\<open>np.std\<close> (the population standard deviation); both are called on
  non-empty lists only.
\<close>

definition np_mean :: "real list \<Rightarrow> real" where
  "np_mean xs = sum_list xs / real (length xs)"

definition np_std :: "real list \<Rightarrow> real" where
  "np_std xs = sqrt (np_mean (map (\<lambda>x. (x - np_mean xs)\<^sup>2) xs))"

text \<open>\<^verbatim>\<open>sep.join(parts)\<close>.\<close>

fun join :: "string \<Rightarrow> string list \<Rightarrow> string" where
  "join sep [] = []"
| "join sep [x] = x"
| "join sep (x # y # ys) = x @ sep @ join sep (y # ys)"

text \<open>
  The letter sigma of the consensus notes, in UTF-8. The fixed-point formatting of the
  f-strings (\<^verbatim>\<open>{x:.3f}\<close> is \<open>fmt 3 x\<close>) belongs to Python and is a parameter.
\<close>

definition sigma :: string where
  "sigma = [CHR 0xCF, CHR 0x83]"

text \<open>
  The function appends to \<^verbatim>\<open>reasons\<close> in six blocks, each under its own comment; each
  block is a step from the list before it to the list after it.
\<close>

definition model_consensus_analysis ::
  "(nat \<Rightarrow> real \<Rightarrow> string) \<Rightarrow> (string \<times> real) list \<Rightarrow> string list \<Rightarrow> string list" where
  "model_consensus_analysis fmt predictions reasons =
     (if predictions \<noteq> [] then
        (let pred_std = np_std (map snd predictions)
         in if pred_std < 0.05 then
              reasons @ [''Strong model consensus ('' @ sigma @ ''='' @ fmt 3 pred_std @ '')'']
            else if pred_std > 0.15 then
              reasons @ [''Model disagreement detected ('' @ sigma @ ''='' @ fmt 3 pred_std @ '')'']
            else reasons)
      else reasons)"

definition market_condition_analysis ::
  "(nat \<Rightarrow> real \<Rightarrow> string) \<Rightarrow> features \<Rightarrow> string list \<Rightarrow> string list" where
  "market_condition_analysis fmt row reasons =
     (if volatility row > 15 then
        reasons @ [''Extreme volatility ('' @ fmt 1 (volatility row) @ ''%) increases trading risk'']
      else if volatility row > 8 then
        reasons @ [''High volatility ('' @ fmt 1 (volatility row) @ ''%) detected'']
      else if volatility row < 2 then
        reasons @ [''Very stable market conditions ('' @ fmt 1 (volatility row) @ ''% volatility)'']
      else reasons)"

definition liquidity_analysis :: "features \<Rightarrow> string list \<Rightarrow> string list" where
  "liquidity_analysis row reasons =
     (if volume_ratio row > 1.5 then
        reasons @ [''Above-average trading volume supports lower fees'']
      else if volume_ratio row < 0.7 then
        reasons @ [''Below-average volume may increase price impact'']
      else reasons)"

definition network_conditions ::
  "(nat \<Rightarrow> real \<Rightarrow> string) \<Rightarrow> features \<Rightarrow> string list \<Rightarrow> string list" where
  "network_conditions fmt row reasons =
     (if gas_price_gwei row > 80 then
        reasons @ [''High network congestion ('' @ fmt 0 (gas_price_gwei row) @ '' GWEI)'']
      else if gas_price_gwei row < 20 then
        reasons @ [''Low network congestion favors efficient execution'']
      else reasons)"

definition time_based_factors :: "features \<Rightarrow> string list \<Rightarrow> string list" where
  "time_based_factors row reasons =
     (if hour_of_day row \<in> {14, 15, 16} then
        reasons @ [''Peak trading hours may increase volatility'']
      else if hour_of_day row \<in> {2, 3, 4, 5} then
        reasons @ [''Low-activity period with reduced liquidity'']
      else reasons)"

text \<open>
  The final prediction reaches the generator as a numpy scalar or as a plain Python float.
  Both divide alike by a nonzero base fee. By a base fee of zero a plain float raises
  ZeroDivisionError, while a numpy scalar gives \<^verbatim>\<open>inf\<close>, \<^verbatim>\<open>-inf\<close> or \<^verbatim>\<open>nan\<close> by its sign:
  \<^verbatim>\<open>inf\<close> is above 1.5 and \<^verbatim>\<open>-inf\<close> below 0.8, the percentage is \<^verbatim>\<open>inf\<close> in both cases and
  is printed as \<^verbatim>\<open>inf\<close>; \<^verbatim>\<open>nan\<close> compares false with both thresholds.
\<close>

datatype float_kind = PythonFloat | NumpyFloat

definition fee_level_assessment ::
  "(nat \<Rightarrow> real \<Rightarrow> string) \<Rightarrow> config \<Rightarrow> float_kind \<Rightarrow> real \<Rightarrow> string list
     \<Rightarrow> py_error + string list" where
  "fee_level_assessment fmt cfg kind final_prediction reasons =
     (let base_fee = BASE_FEE_RATE cfg
      in if base_fee \<noteq> 0 then
           (let fee_ratio = final_prediction / base_fee
            in if fee_ratio > 1.5 then
                 Inr (reasons @ [''Fee '' @ fmt 0 ((fee_ratio - 1) * 100)
                                  @ ''% above base rate due to market conditions''])
               else if fee_ratio < 0.8 then
                 Inr (reasons @ [''Fee '' @ fmt 0 ((1 - fee_ratio) * 100)
                                  @ ''% below base rate due to favorable conditions''])
               else Inr reasons)
         else
           (case kind of
              PythonFloat \<Rightarrow> Inl ZeroDivisionError
            | NumpyFloat \<Rightarrow>
                if final_prediction > 0 then
                  Inr (reasons @ [''Fee inf% above base rate due to market conditions''])
                else if final_prediction < 0 then
                  Inr (reasons @ [''Fee inf% below base rate due to favorable conditions''])
                else Inr reasons))"

definition generate_production_reasoning ::
  "(nat \<Rightarrow> real \<Rightarrow> string) \<Rightarrow> config \<Rightarrow> features \<Rightarrow> (string \<times> real) list
     \<Rightarrow> float_kind \<Rightarrow> real \<Rightarrow> py_error + string" where
  "generate_production_reasoning fmt cfg row predictions kind final_prediction =
     (let reasons = [];
          reasons = model_consensus_analysis fmt predictions reasons;
          reasons = market_condition_analysis fmt row reasons;
          reasons = liquidity_analysis row reasons;
          reasons = network_conditions fmt row reasons;
          reasons = time_based_factors row reasons
      in bind_err (fee_level_assessment fmt cfg kind final_prediction reasons) (\<lambda>reasons.
           Inr (join ''. '' reasons @ ''.'')))"

text \<open>
  The six kinds of justification as the specification lists them, each present or absent.
\<close>

definition agreement_note :: "(nat \<Rightarrow> real \<Rightarrow> string) \<Rightarrow> (string \<times> real) list \<Rightarrow> string option" where
  "agreement_note fmt predictions =
     (if predictions = [] then None
      else if np_std (map snd predictions) < 0.05 then
        Some (''Strong model consensus ('' @ sigma @ ''='' @ fmt 3 (np_std (map snd predictions)) @ '')'')
      else if np_std (map snd predictions) > 0.15 then
        Some (''Model disagreement detected ('' @ sigma @ ''='' @ fmt 3 (np_std (map snd predictions)) @ '')'')
      else None)"

definition volatility_note :: "(nat \<Rightarrow> real \<Rightarrow> string) \<Rightarrow> features \<Rightarrow> string option" where
  "volatility_note fmt row =
     (if volatility row > 15 then
        Some (''Extreme volatility ('' @ fmt 1 (volatility row) @ ''%) increases trading risk'')
      else if volatility row > 8 then
        Some (''High volatility ('' @ fmt 1 (volatility row) @ ''%) detected'')
      else if volatility row < 2 then
        Some (''Very stable market conditions ('' @ fmt 1 (volatility row) @ ''% volatility)'')
      else None)"

definition volume_note :: "features \<Rightarrow> string option" where
  "volume_note row =
     (if volume_ratio row > 1.5 then Some ''Above-average trading volume supports lower fees''
      else if volume_ratio row < 0.7 then Some ''Below-average volume may increase price impact''
      else None)"

definition congestion_note :: "(nat \<Rightarrow> real \<Rightarrow> string) \<Rightarrow> features \<Rightarrow> string option" where
  "congestion_note fmt row =
     (if gas_price_gwei row > 80 then
        Some (''High network congestion ('' @ fmt 0 (gas_price_gwei row) @ '' GWEI)'')
      else if gas_price_gwei row < 20 then
        Some ''Low network congestion favors efficient execution''
      else None)"

definition time_note :: "features \<Rightarrow> string option" where
  "time_note row =
     (if hour_of_day row \<in> {14, 15, 16} then Some ''Peak trading hours may increase volatility''
      else if hour_of_day row \<in> {2, 3, 4, 5} then Some ''Low-activity period with reduced liquidity''
      else None)"

text \<open>
  The fee ratio as an extended number, which the thresholds of the last note compare.
\<close>

datatype ratio = Finite real | PlusInf | MinusInf | NaN

definition fee_ratio_of :: "config \<Rightarrow> real \<Rightarrow> ratio" where
  "fee_ratio_of cfg final_prediction =
     (if BASE_FEE_RATE cfg \<noteq> 0 then Finite (final_prediction / BASE_FEE_RATE cfg)
      else if final_prediction > 0 then PlusInf
      else if final_prediction < 0 then MinusInf
      else NaN)"

fun above :: "ratio \<Rightarrow> real \<Rightarrow> bool" where
  "above (Finite x) t = (x > t)"
| "above PlusInf t = True"
| "above MinusInf t = False"
| "above NaN t = False"

fun below :: "ratio \<Rightarrow> real \<Rightarrow> bool" where
  "below (Finite x) t = (x < t)"
| "below PlusInf t = False"
| "below MinusInf t = True"
| "below NaN t = False"

text \<open>The percentage above and the percentage below 1, printed with no decimals.\<close>

definition percent_above :: "(nat \<Rightarrow> real \<Rightarrow> string) \<Rightarrow> ratio \<Rightarrow> string" where
  "percent_above fmt r = (case r of Finite x \<Rightarrow> fmt 0 ((x - 1) * 100) | _ \<Rightarrow> ''inf'')"

definition percent_below :: "(nat \<Rightarrow> real \<Rightarrow> string) \<Rightarrow> ratio \<Rightarrow> string" where
  "percent_below fmt r = (case r of Finite x \<Rightarrow> fmt 0 ((1 - x) * 100) | _ \<Rightarrow> ''inf'')"

definition deviation_note :: "(nat \<Rightarrow> real \<Rightarrow> string) \<Rightarrow> config \<Rightarrow> real \<Rightarrow> string option" where
  "deviation_note fmt cfg final_prediction =
     (let r = fee_ratio_of cfg final_prediction
      in if above r 1.5 then
           Some (''Fee '' @ percent_above fmt r @ ''% above base rate due to market conditions'')
         else if below r 0.8 then
           Some (''Fee '' @ percent_below fmt r @ ''% below base rate due to favorable conditions'')
         else None)"

definition present :: "string option list \<Rightarrow> string list" where
  "present notes = concat (map (\<lambda>n. case n of None \<Rightarrow> [] | Some s \<Rightarrow> [s]) notes)"

definition ordered_notes ::
  "(nat \<Rightarrow> real \<Rightarrow> string) \<Rightarrow> config \<Rightarrow> features \<Rightarrow> (string \<times> real) list \<Rightarrow> real \<Rightarrow> string list" where
  "ordered_notes fmt cfg row predictions final_prediction =
     present [agreement_note fmt predictions, volatility_note fmt row, volume_note row,
              congestion_note fmt row, time_note row, deviation_note fmt cfg final_prediction]"

section \<open>The predictor and its prediction (production\_models.py, lines 598-691, 805-814)\<close>

text \<open>
  A fitted ensemble member, with its scaler, is a library object: here it is the function
  from the feature row to the prediction, or to the exception that scaling or predicting
  raises. A member that has not been built is \<^verbatim>\<open>None\<close>.
\<close>

type_synonym member = "features \<Rightarrow> py_error + real"

record predictor =
  models :: "(string \<times> member option) list"
  feature_columns :: "string list"
  is_trained :: bool
  best_model_name :: "string option"

text \<open>
  What the prediction takes from outside the repository's own computation: the awaited
  live snapshot, the training run (it returns the trained predictor or raises), the two
  clock readings and Python's fixed-point formatting.
\<close>

record world =
  get_live_market_data :: "py_error + pydict"
  train_models :: "predictor \<Rightarrow> py_error + predictor"
  now :: datetime
  now_isoformat :: string
  format_f :: "nat \<Rightarrow> real \<Rightarrow> string"

text \<open>\<^verbatim>\<open>round(x, ndigits)\<close>: scale, round half to even, scale back.\<close>

definition round_half_even :: "real \<Rightarrow> int" where
  "round_half_even y =
     (let f = \<lfloor>y\<rfloor>; d = y - of_int f
      in if d < 1 / 2 then f else if d > 1 / 2 then f + 1 else if even f then f else f + 1)"

definition py_round :: "nat \<Rightarrow> real \<Rightarrow> real" where
  "py_round ndigits x = of_int (round_half_even (x * 10 ^ ndigits)) / 10 ^ ndigits"

definition fallback_prediction :: "world \<Rightarrow> config \<Rightarrow> pydict" where
  "fallback_prediction w cfg =
     [(''recommended_fee'', PyNum (BASE_FEE_RATE cfg)),
      (''confidence'', PyNum 0.4),
      (''reasoning'', PyStr ''Using fallback base fee due to insufficient data or model errors''),
      (''market_condition'', PyStr ''unknown''),
      (''primary_model'', PyStr ''fallback''),
      (''prediction_timestamp'', PyStr (now_isoformat w))]"

text \<open>
  The loop over \<^verbatim>\<open>self.models.items()\<close>: a member that is \<^verbatim>\<open>None\<close> or raises is skipped,
  every other one enters both dictionaries.
\<close>

fun collect_predictions ::
  "(string \<times> member option) list \<Rightarrow> features
     \<Rightarrow> (string \<times> real) list \<times> (string \<times> real) list" where
  "collect_predictions [] row = ([], [])"
| "collect_predictions ((model_name, None) # ms) row = collect_predictions ms row"
| "collect_predictions ((model_name, Some model) # ms) row =
     (case model row of
        Inl e \<Rightarrow> collect_predictions ms row
      | Inr pred \<Rightarrow>
          (let (predictions, confidences) = collect_predictions ms row
           in ((model_name, pred) # predictions,
               (model_name, calculate_model_confidence model_name row) # confidences)))"

text \<open>\<^verbatim>\<open>d[k]\<close>: a missing key raises KeyError.\<close>

definition subscript :: "(string \<times> real) list \<Rightarrow> string \<Rightarrow> py_error + real" where
  "subscript d k = (case map_of d k of None \<Rightarrow> Inl KeyError | Some v \<Rightarrow> Inr v)"

text \<open>\<^verbatim>\<open>sum(pred * confidences[model_name] for model_name, pred in predictions.items())\<close>.\<close>

fun weighted_sum :: "(string \<times> real) list \<Rightarrow> (string \<times> real) list \<Rightarrow> py_error + real" where
  "weighted_sum [] confidences = Inr 0"
| "weighted_sum ((model_name, pred) # predictions) confidences =
     bind_err (subscript confidences model_name) (\<lambda>c.
     bind_err (weighted_sum predictions confidences) (\<lambda>s. Inr (pred * c + s)))"

text \<open>
  Lines 643-666: the primary prediction with its confidence, the ensemble prediction and
  the final prediction, in this order.
\<close>

definition primary ::
  "string option \<Rightarrow> (string \<times> real) list \<Rightarrow> (string \<times> real) list \<Rightarrow> py_error + real \<times> real" where
  "primary best predictions confidences =
     (case best of
        None \<Rightarrow> Inr (np_mean (map snd predictions), np_mean (map snd confidences))
      | Some name \<Rightarrow>
          if name \<noteq> [] \<and> map_of predictions name \<noteq> None then
            bind_err (subscript predictions name) (\<lambda>primary_prediction.
            bind_err (subscript confidences name) (\<lambda>primary_confidence.
              Inr (primary_prediction, primary_confidence)))
          else Inr (np_mean (map snd predictions), np_mean (map snd confidences)))"

definition ensemble ::
  "real \<Rightarrow> (string \<times> real) list \<Rightarrow> (string \<times> real) list \<Rightarrow> py_error + real" where
  "ensemble primary_prediction predictions confidences =
     (let total_weight = sum_list (map snd confidences)
      in if total_weight > 0 then
           bind_err (weighted_sum predictions confidences) (\<lambda>s. Inr (s / total_weight))
         else Inr primary_prediction)"

definition final_of :: "real \<Rightarrow> real" where
  "final_of primary_prediction = max 0.05 (min primary_prediction 2.5)"

text \<open>
  \<^verbatim>\<open>min\<close> and \<^verbatim>\<open>max\<close> return one of their arguments: the numpy scalar that the member or
  \<^verbatim>\<open>np.mean\<close> gave when it lies above 0.05 and not above 2.5, else the literal bound, a
  plain float.
\<close>

definition kind_of_final :: "real \<Rightarrow> float_kind" where
  "kind_of_final primary_prediction =
     (if 0.05 < primary_prediction \<and> primary_prediction \<le> 2.5 then NumpyFloat else PythonFloat)"

text \<open>
  The three together, which the specification calls the blend: the final fee (with the
  kind of float it is), the confidence reported with it and the ensemble fee.
\<close>

definition blend ::
  "(string \<times> real) list \<Rightarrow> (string \<times> real) list \<Rightarrow> string option
     \<Rightarrow> py_error + (float_kind \<times> real) \<times> real \<times> real" where
  "blend predictions confidences best =
     bind_err (primary best predictions confidences) (\<lambda>(primary_prediction, primary_confidence).
     bind_err (ensemble primary_prediction predictions confidences) (\<lambda>ensemble_prediction.
       Inr ((kind_of_final primary_prediction, final_of primary_prediction),
            primary_confidence, ensemble_prediction)))"

text \<open>
  The blend as the specification words it: the prediction of the best model when the
  map has it (an empty name counts as none), and the mean weighted by the confidences, on
  the values of two maps with the same keys in the same order.
\<close>

definition best_member :: "string option \<Rightarrow> (string \<times> real) list \<Rightarrow> real option" where
  "best_member best d =
     (case best of None \<Rightarrow> None | Some name \<Rightarrow> if name = [] then None else map_of d name)"

definition weighted_mean :: "real list \<Rightarrow> real list \<Rightarrow> real" where
  "weighted_mean xs weights = sum_list (map2 (*) xs weights) / sum_list weights"

definition rounded :: "nat \<Rightarrow> (string \<times> real) list \<Rightarrow> pydict" where
  "rounded ndigits d = map (\<lambda>(k, v). (k, PyNum (py_round ndigits v))) d"

definition predict_body :: "world \<Rightarrow> config \<Rightarrow> predictor \<Rightarrow> pydict option \<Rightarrow> py_error + pydict" where
  "predict_body w cfg self market_data =
     bind_err (case market_data of None \<Rightarrow> get_live_market_data w | Some d \<Rightarrow> Inr d)
       (\<lambda>market_data.
     case extract_features_from_market_data (now w) market_data of
       None \<Rightarrow> Inr (fallback_prediction w cfg)
     | Some row \<Rightarrow>
         bind_err (if \<not> is_trained self then train_models w self else Inr self) (\<lambda>self.
         let (predictions, confidences) = collect_predictions (models self) row
         in if predictions = [] then Inr (fallback_prediction w cfg)
            else
              bind_err (blend predictions confidences (best_model_name self))
                (\<lambda>((kind, final_prediction), primary_confidence, ensemble_prediction).
              bind_err (generate_production_reasoning (format_f w) cfg row predictions
                          kind final_prediction) (\<lambda>reasoning.
                 let market_condition = classify_market_condition row
                 in Inr [(''recommended_fee'', PyNum (py_round 4 final_prediction)),
                         (''confidence'', PyNum (py_round 3 primary_confidence)),
                         (''reasoning'', PyStr reasoning),
                         (''market_condition'', PyStr market_condition),
                         (''primary_model'',
                            (case best_model_name self of None \<Rightarrow> PyNone | Some n \<Rightarrow> PyStr n)),
                         (''ensemble_prediction'', PyNum (py_round 4 ensemble_prediction)),
                         (''all_predictions'', PyDict (rounded 4 predictions)),
                         (''model_confidences'', PyDict (rounded 3 confidences)),
                         (''features_used'', PyNum (real (length (feature_columns self)))),
                         (''prediction_timestamp'', PyStr (now_isoformat w))]))))"

text \<open>\<^verbatim>\<open>except Exception\<close>: an exception of the body is logged and answered by the fallback.\<close>

definition predict_optimal_fee :: "world \<Rightarrow> config \<Rightarrow> predictor \<Rightarrow> pydict option \<Rightarrow> pydict" where
  "predict_optimal_fee w cfg self market_data =
     (case predict_body w cfg self market_data of
        Inl e \<Rightarrow> fallback_prediction w cfg
      | Inr result \<Rightarrow> result)"

text \<open>The keys of the full record of the specification, and those of the fallback.\<close>

definition full_fields :: "string list" where
  "full_fields =
     [''recommended_fee'', ''confidence'', ''reasoning'', ''market_condition'',
      ''primary_model'', ''ensemble_prediction'', ''all_predictions'', ''model_confidences'',
      ''features_used'', ''prediction_timestamp'']"

definition fallback_fields :: "string list" where
  "fallback_fields =
     [''recommended_fee'', ''confidence'', ''reasoning'', ''market_condition'',
      ''primary_model'', ''prediction_timestamp'']"

section \<open>The synthetic training data (production\_models.py, lines 120-248)\<close>

text \<open>
  One iteration of the loop draws in the order of the source. Its body is written in the
  blocks that the comments of the source mark, each from the generator state before it
  to the values it computes and the state after it (the arguments that bear the name of a
  column are bound by a \<open>\<lambda>\<close>). \<open>i\<close> is the loop counter, which is
  the length of \<open>data\<close> at every iteration, so the subscripts into \<open>data\<close> are in
  range.
\<close>

definition market_volatility ::
  "'g np_random \<Rightarrow> int \<Rightarrow> int \<Rightarrow> nat \<Rightarrow> features list \<Rightarrow> 'g \<Rightarrow> real \<times> 'g" where
  "market_volatility rng = (\<lambda>hour_of_day day_of_week i data g.
     (let base_vol = 4.0;
          time_vol_multiplier =
            (if hour_of_day \<in> {14, 15, 16, 21, 22} then 1.4
             else if hour_of_day \<in> {2, 3, 4, 5} then 0.6
             else 1.0);
          day_vol_multiplier =
            (if day_of_week \<in> {0, 1, 2} then 1.2
             else if day_of_week \<in> {5, 6} then 0.7
             else 1.0);
          prev_vol = (if data \<noteq> [] then volatility (data ! (i - 1)) else base_vol);
          (e, g) = exponential rng base_vol g;
          volatility = (if i > 0 then 0.7 * prev_vol + 0.3 * e else e);
          volatility = volatility * (time_vol_multiplier * day_vol_multiplier);
          volatility = max 0.5 (min volatility 30)
      in (volatility, g)))"

definition volume_with_correlation ::
  "'g np_random \<Rightarrow> int \<Rightarrow> real \<Rightarrow> 'g \<Rightarrow> real \<times> 'g" where
  "volume_with_correlation rng = (\<lambda>hour_of_day volatility g.
     (let base_volume = 1200000000;
          vol_volume_factor = 1 + min (volatility / 10) 2 * 0.5;
          time_volume_factor =
            (if hour_of_day \<in> {14, 15, 16} then 1.8
             else if hour_of_day \<in> {2, 3, 4, 5} then 0.3
             else 1.0);
          volume_24h = base_volume * vol_volume_factor * time_volume_factor;
          (noise, g) = lognormal rng 0 0.4 g;
          volume_24h = volume_24h * noise;
          volume_24h = max 100000000 (min volume_24h 8000000000)
      in (volume_24h, g)))"

definition price_changes :: "'g np_random \<Rightarrow> real \<Rightarrow> 'g \<Rightarrow> real \<times> real \<times> 'g" where
  "price_changes rng = (\<lambda>volatility g.
     (let (price_change_1h, g) = normal rng 0 (volatility / 15) g;
          (price_change_24h, g) = normal rng 0 (volatility / 4) g
      in (price_change_1h, price_change_24h, g)))"

definition market_cap_with_fluctuations :: "'g np_random \<Rightarrow> 'g \<Rightarrow> real \<times> 'g" where
  "market_cap_with_fluctuations rng g =
     (let base_market_cap = 28000000000;
          (market_cap_drift, g) = normal rng 0 0.02 g;
          market_cap = base_market_cap * (1 + market_cap_drift);
          market_cap = max 15000000000 (min market_cap 50000000000)
      in (market_cap, g))"

definition gas_price_with_congestion ::
  "'g np_random \<Rightarrow> int \<Rightarrow> int \<Rightarrow> real \<Rightarrow> 'g \<Rightarrow> real \<times> 'g" where
  "gas_price_with_congestion rng = (\<lambda>hour_of_day day_of_week volatility g.
     (let base_gas = 28;
          gas_multiplier =
            (if hour_of_day \<in> {14, 15, 16, 21, 22} then 1.6
             else if hour_of_day \<in> {2, 3, 4, 5} then 0.7
             else 1.0);
          gas_multiplier = (if day_of_week \<in> {5, 6} then gas_multiplier * 0.8 else gas_multiplier);
          vol_gas_factor = 1 + min (volatility / 20) 1 * 0.5;
          gas_price_gwei = base_gas * gas_multiplier * vol_gas_factor;
          (noise, g) = lognormal rng 0 0.3 g;
          gas_price_gwei = gas_price_gwei * noise;
          gas_price_gwei = max 18 (min gas_price_gwei 400)
      in (gas_price_gwei, g)))"

definition moving_averages ::
  "'g np_random \<Rightarrow> nat \<Rightarrow> features list \<Rightarrow> real \<Rightarrow> real \<Rightarrow> 'g \<Rightarrow> real \<times> real \<times> 'g" where
  "moving_averages rng = (\<lambda>i data volume_24h volatility g.
     (if i \<ge> 168 then
        (let recent_volumes = map features.volume_24h (take 168 (drop (i - 168) data));
             recent_vols = map features.volatility (take 168 (drop (i - 168) data))
         in (np_mean recent_volumes, np_mean recent_vols, g))
      else
        (let (u1, g) = uniform rng 0.8 1.2 g;
             (u2, g) = uniform rng 0.7 1.3 g
         in (volume_24h * u1, volatility * u2, g))))"

definition generate_row ::
  "'g np_random \<Rightarrow> datetime \<Rightarrow> nat \<Rightarrow> features list \<Rightarrow> 'g \<Rightarrow> features \<times> 'g" where
  "generate_row rng current_time i data g =
     (let hour_of_day = hour current_time;
          day_of_week = weekday current_time;
          (volatility, g) = market_volatility rng hour_of_day day_of_week i data g;
          (volume_24h, g) = volume_with_correlation rng hour_of_day volatility g;
          (price_change_1h, price_change_24h, g) = price_changes rng volatility g;
          (market_cap, g) = market_cap_with_fluctuations rng g;
          (gas_price_gwei, g) = gas_price_with_congestion rng hour_of_day day_of_week volatility g;
          liquidity_score = (volume_24h / market_cap) * 100;
          (volume_ma_7d, volatility_ma_7d, g) = moving_averages rng i data volume_24h volatility g;
          price_momentum = price_change_24h * (1 + volatility / 20);
          volume_ratio = (if volume_ma_7d > 0 then volume_24h / volume_ma_7d else 1.0);
          gas_trend = (gas_price_gwei - 28) / 372
      in (\<lparr>volatility = volatility,
           volume_24h = volume_24h,
           price_change_1h = price_change_1h,
           price_change_24h = price_change_24h,
           market_cap = market_cap,
           gas_price_gwei = gas_price_gwei,
           liquidity_score = liquidity_score,
           hour_of_day = hour_of_day,
           day_of_week = day_of_week,
           volume_ma_7d = volume_ma_7d,
           volatility_ma_7d = volatility_ma_7d,
           price_momentum = price_momentum,
           volume_ratio = volume_ratio,
           gas_trend = gas_trend\<rparr>, g))"

text \<open>
  \<^verbatim>\<open>for i in range(n_samples)\<close>, with the number of iterations left as first counter;
  \<^verbatim>\<open>start_date + timedelta(hours=i)\<close> may leave the range of dates.
\<close>

fun generate_rows ::
  "'g np_random \<Rightarrow> datetime \<Rightarrow> nat \<Rightarrow> nat \<Rightarrow> features list \<Rightarrow> 'g
     \<Rightarrow> py_error + features list \<times> 'g" where
  "generate_rows rng start_date 0 i data g = Inr (data, g)"
| "generate_rows rng start_date (Suc k) i data g =
     bind_err (add_hours start_date (int i)) (\<lambda>current_time.
       let (row, g) = generate_row rng current_time i data g
       in generate_rows rng start_date k (Suc i) (data @ [row]) g)"

text \<open>\<^verbatim>\<open>df.apply(self._calculate_sophisticated_optimal_fee, axis=1)\<close>: one call a row, in order.\<close>

fun label_rows ::
  "'g np_random \<Rightarrow> config \<Rightarrow> features list \<Rightarrow> 'g \<Rightarrow> (features \<times> real) list \<times> 'g" where
  "label_rows rng cfg [] g = ([], g)"
| "label_rows rng cfg (row # rows) g =
     (let (optimal_fee, g) = calculate_sophisticated_optimal_fee rng cfg row g;
          (rest, g) = label_rows rng cfg rows g
      in ((row, optimal_fee) # rest, g))"

text \<open>
  The generator reads the clock (\<^verbatim>\<open>datetime.now()\<close>, the argument \<open>clock\<close>) and starts
  from the state \<open>g0\<close> the global generator is in when it is called.
\<close>

definition generate_realistic_training_data ::
  "'g np_random \<Rightarrow> config \<Rightarrow> datetime \<Rightarrow> nat \<Rightarrow> 'g
     \<Rightarrow> py_error + (features \<times> real) list \<times> 'g" where
  "generate_realistic_training_data rng cfg clock n_samples g0 =
     (let g = seed rng 42
      in bind_err (add_hours clock (- (365 * 24))) (\<lambda>start_date.
         bind_err (generate_rows rng start_date n_samples 0 [] g) (\<lambda>(data, g).
           Inr (label_rows rng cfg data g))))"

section \<open>The synthetic training data of the advanced variant (ml\_models.py, lines 122-208)\<close>

definition generate_advanced_row ::
  "'g np_random \<Rightarrow> config \<Rightarrow> 'g \<Rightarrow> (features \<times> real) \<times> 'g" where
  "generate_advanced_row rng cfg g =
     (let (hour_of_day, g) = randint rng 0 24 g;
          (day_of_week, g) = randint rng 0 7 g;
          base_volatility = 3.0;
          volatility_multiplier = (if hour_of_day \<in> {9, 10, 16, 17} then 1.5 else 1.0);
          (e, g) = exponential rng base_volatility g;
          volatility = e * volatility_multiplier;
          volatility = max 0.5 (min volatility 25);
          base_volume = 800000000;
          (volume_noise, g) = lognormal rng 0 0.3 g;
          volatility_impact = 1 + (volatility - 5) * 0.1;
          volume_24h = base_volume * volume_noise * volatility_impact;
          volume_24h = max 50000000 (min volume_24h 5000000000);
          (price_change_1h, g) = normal rng 0 (volatility / 10) g;
          (price_change_24h, g) = normal rng 0 (volatility / 3) g;
          (market_cap, g) = lognormal rng 24 0.4 g;
          gas_multiplier = (if day_of_week \<in> {1, 2, 3} then 1.3 else 0.8);
          (e, g) = exponential rng 30 g;
          gas_price_gwei = e * gas_multiplier;
          gas_price_gwei = max 15 (min gas_price_gwei 300);
          liquidity_score = (volume_24h / market_cap) * 100;
          (u, g) = uniform rng 0.8 1.2 g;
          volume_ma_7d = volume_24h * u;
          (u, g) = uniform rng 0.7 1.3 g;
          volatility_ma_7d = volatility * u;
          (u, g) = uniform rng 0.5 1.5 g;
          price_momentum = price_change_24h * u;
          volume_ratio = volume_24h / volume_ma_7d;
          gas_trend = (gas_price_gwei - 25) / 275;
          row = \<lparr>volatility = volatility,
                 volume_24h = volume_24h,
                 price_change_1h = price_change_1h,
                 price_change_24h = price_change_24h,
                 market_cap = market_cap,
                 gas_price_gwei = gas_price_gwei,
                 liquidity_score = liquidity_score,
                 hour_of_day = hour_of_day,
                 day_of_week = day_of_week,
                 volume_ma_7d = volume_ma_7d,
                 volatility_ma_7d = volatility_ma_7d,
                 price_momentum = price_momentum,
                 volume_ratio = volume_ratio,
                 gas_trend = gas_trend\<rparr>;
          (optimal_fee, g) = advanced_calculate_sophisticated_optimal_fee rng cfg row g
      in ((row, optimal_fee), g))"

fun generate_advanced_rows ::
  "'g np_random \<Rightarrow> config \<Rightarrow> nat \<Rightarrow> 'g \<Rightarrow> (features \<times> real) list \<times> 'g" where
  "generate_advanced_rows rng cfg 0 g = ([], g)"
| "generate_advanced_rows rng cfg (Suc k) g =
     (let (sample, g) = generate_advanced_row rng cfg g;
          (rest, g) = generate_advanced_rows rng cfg k g
      in (sample # rest, g))"

definition generate_advanced_training_data ::
  "'g np_random \<Rightarrow> config \<Rightarrow> nat \<Rightarrow> 'g \<Rightarrow> (features \<times> real) list \<times> 'g" where
  "generate_advanced_training_data rng cfg n_samples g0 =
     (let g = seed rng 42 in generate_advanced_rows rng cfg n_samples g)"

section \<open>The derived fields of the codec and of the generator\<close>

text \<open>
  The two derivations as each function writes them, the liquidity score as the
  specification states it for the codec, and the rows of a generated data set.
\<close>

definition codec_derivation :: "features \<Rightarrow> bool" where
  "codec_derivation r =
     (liquidity_score r =
        (if market_cap r > 0 then (volume_24h r / max (market_cap r) 1) * 100 else 0) \<and>
      gas_trend r = (gas_price_gwei r - 28) / 372)"

definition generator_derivation :: "features \<Rightarrow> bool" where
  "generator_derivation r =
     (liquidity_score r = (volume_24h r / market_cap r) * 100 \<and>
      gas_trend r = (gas_price_gwei r - 28) / 372)"

definition stated_liquidity_score :: "features \<Rightarrow> real" where
  "stated_liquidity_score r = volume_24h r / max (market_cap r) 1 * 100"

definition rows_of :: "py_error + (features \<times> real) list \<times> 'g \<Rightarrow> features list" where
  "rows_of result = (case result of Inl e \<Rightarrow> [] | Inr (samples, g) \<Rightarrow> map fst samples)"

section \<open>Sample inputs\<close>

text \<open>
  Concrete values for the parameters, on which the model runs: a fixed-point formatter on
  reals (sign, integer part, \<open>ndigits\<close> decimals, rounded half to even), a counter in
  place of numpy's generator state, a training run that only sets the flag, and a
  predictor whose neural member has not been built.
\<close>

function show_nat :: "nat \<Rightarrow> string" where
  "show_nat n =
     (if n < 10 then [''0123456789'' ! n]
      else show_nat (n div 10) @ [''0123456789'' ! (n mod 10)])"
  by pat_completeness auto
termination
  by (relation "measure id") auto

declare show_nat.simps [simp del]

definition fixed_point :: "nat \<Rightarrow> real \<Rightarrow> string" where
  "fixed_point ndigits x =
     (let r = nat (round_half_even (\<bar>x\<bar> * 10 ^ ndigits));
          fraction = show_nat (r mod 10 ^ ndigits)
      in (if x < 0 then ''-'' else []) @ show_nat (r div 10 ^ ndigits) @
         (if ndigits = 0 then []
          else ''.'' @ replicate (ndigits - length fraction) CHR ''0'' @ fraction))"

definition sample_rng :: "nat np_random" where
  "sample_rng =
     \<lparr>seed = (\<lambda>s. s),
      exponential = (\<lambda>scale g. (scale * (1 + real (g mod 3)) / 2, Suc g)),
      lognormal = (\<lambda>mean sigma g. (1 + real (g mod 5) / 10, Suc g)),
      normal = (\<lambda>loc scale g. (loc + scale * (real (g mod 7) - 3) / 3, Suc g)),
      uniform = (\<lambda>low high g. (low + (high - low) * real (g mod 4) / 4, Suc g)),
      randint = (\<lambda>low high g. (low + int g mod (high - low), Suc g))\<rparr>"

definition sample_config :: config where
  "sample_config = \<lparr>BASE_FEE_RATE = 0.3\<rparr>"

definition sample_predictor :: predictor where
  "sample_predictor =
     \<lparr>models = [(''random_forest'', Some (\<lambda>row. Inr 0.2)),
                (''gradient_boosting'', Some (\<lambda>row. Inr 0.4)),
                (''neural_network'', None)],
      feature_columns =
        [''volatility'', ''volume_24h'', ''price_change_1h'', ''price_change_24h'',
         ''market_cap'', ''gas_price_gwei'', ''liquidity_score'',
         ''hour_of_day'', ''day_of_week'', ''volume_ma_7d'', ''volatility_ma_7d'',
         ''price_momentum'', ''volume_ratio'', ''gas_trend''],
      is_trained = True,
      best_model_name = Some ''neural_network''\<rparr>"

text \<open>A predictor whose random forest raises at prediction time.\<close>

definition faulty_predictor :: predictor where
  "faulty_predictor =
     sample_predictor
       \<lparr>models := [(''random_forest'', Some (\<lambda>row. Inl OtherError)),
                   (''gradient_boosting'', Some (\<lambda>row. Inr 0.4)),
                   (''neural_network'', None)],
        best_model_name := Some ''gradient_boosting''\<rparr>"

text \<open>A predictor whose only member predicts a fee above the upper bound.\<close>

definition overheated_predictor :: predictor where
  "overheated_predictor =
     sample_predictor
       \<lparr>models := [(''random_forest'', Some (\<lambda>row. Inr 3.1))],
        best_model_name := Some ''random_forest''\<rparr>"

text \<open>Two readings of the clock on one day: 2025-01-06T03:00 and 2025-01-06T14:00.\<close>

definition clock_at_3 :: datetime where
  "clock_at_3 = 17742147"

definition clock_at_14 :: datetime where
  "clock_at_14 = 17742158"

text \<open>The clock reads 2025-01-06T12:00, a Monday.\<close>

definition sample_world :: world where
  "sample_world =
     \<lparr>get_live_market_data = Inr [],
      train_models = (\<lambda>self. Inr (self\<lparr>is_trained := True\<rparr>)),
      now = 17742156,
      now_isoformat = ''2025-01-06T12:00:00'',
      format_f = fixed_point\<rparr>"

definition sample_snapshot :: pydict where
  "sample_snapshot =
     [(''coingecko'', PyDict [(''volatility'', PyNum 5), (''volume_24h'', PyNum 400000000),
                              (''price_change_24h'', PyNum 2), (''market_cap'', PyNum 15000000000)]),
      (''network'', PyNone)]"

definition sample_row :: features where
  "sample_row =
     \<lparr>volatility = 22, volume_24h = 50000000, price_change_1h = 1.44, price_change_24h = 18,
      market_cap = 15000000000, gas_price_gwei = 150, liquidity_score = 1 / 3,
      hour_of_day = 3, day_of_week = 0, volume_ma_7d = 46000000, volatility_ma_7d = 23.76,
      price_momentum = 20.7, volume_ratio = 25 / 23, gas_trend = 61 / 186\<rparr>"

text \<open>
  Snapshots as the data pipeline can hand them over: one whose volume is \<^verbatim>\<open>None\<close>
  (a JSON null passed through), one without a market capitalisation, and the empty one.
\<close>

definition null_volume_snapshot :: pydict where
  "null_volume_snapshot =
     [(''coingecko'', PyDict [(''volatility'', PyNum 1), (''volume_24h'', PyNone),
                              (''price_change_24h'', PyNum 1), (''market_cap'', PyNum 0)])]"

definition no_market_cap_snapshot :: pydict where
  "no_market_cap_snapshot = [(''coingecko'', PyDict [(''volume_24h'', PyNum 5)])]"

definition empty_snapshot :: pydict where
  "empty_snapshot = []"

text \<open>The snapshot that the data pipeline builds when both of its fetches have failed.\<close>

definition failed_fetch_snapshot :: pydict where
  "failed_fetch_snapshot = [(''coingecko'', PyNone), (''network'', PyNone)]"

text \<open>A row on which the oracle of the advanced variant leaves the interval up to 2.5.\<close>

definition steep_row :: features where
  "steep_row =
     \<lparr>volatility = 11, volume_24h = 50000000, price_change_1h = 0, price_change_24h = 0,
      market_cap = 15000000000, gas_price_gwei = 300, liquidity_score = 1 / 3,
      hour_of_day = 9, day_of_week = 1, volume_ma_7d = 100000000, volatility_ma_7d = 11,
      price_momentum = 400, volume_ratio = 0.5, gas_trend = 1\<rparr>"


definition quiet_row :: features where
  "quiet_row =
     \<lparr>volatility = 5, volume_24h = 400000000, price_change_1h = 0.16, price_change_24h = 2,
      market_cap = 15000000000, gas_price_gwei = 28, liquidity_score = 8 / 3,
      hour_of_day = 12, day_of_week = 0, volume_ma_7d = 368000000, volatility_ma_7d = 5.4,
      price_momentum = 2.3, volume_ratio = 25 / 23, gas_trend = 0\<rparr>"

definition zero_fee_config :: config where
  "zero_fee_config = \<lparr>BASE_FEE_RATE = 0\<rparr>"

section \<open>Bounds of the oracle and of the scorer\<close>

lemma clamp_ge: "(a::real) \<le> lo \<Longrightarrow> a \<le> max lo (min x hi)"
  by simp

lemma clamp_le: "(lo::real) \<le> b \<Longrightarrow> hi \<le> b \<Longrightarrow> max lo (min x hi) \<le> b"
  by simp

lemma optimal_fee_of_noise_bounds:
  "0.05 \<le> optimal_fee_of_noise cfg row noise \<and> optimal_fee_of_noise cfg row noise \<le> 2.5"
  unfolding optimal_fee_of_noise_def Let_def by (intro conjI clamp_ge clamp_le) simp_all

lemma advanced_optimal_fee_of_noise_bounds:
  "0.05 \<le> advanced_optimal_fee_of_noise cfg row noise \<and>
   advanced_optimal_fee_of_noise cfg row noise \<le> 3"
  unfolding advanced_optimal_fee_of_noise_def Let_def by (intro conjI clamp_ge clamp_le) simp_all






text \<open>
  C4, as stated, fails on the oracle of the advanced variant: on \<open>steep_row\<close> with no
  noise it returns 2.84909625, above 2.5.
\<close>

theorem advanced_oracle_above_2_5:
  "advanced_optimal_fee_of_noise sample_config steep_row 0 = 2.84909625 \<and>
   \<not> advanced_optimal_fee_of_noise sample_config steep_row 0 \<le> 2.5"
  by (simp add: advanced_optimal_fee_of_noise_def sample_config_def steep_row_def Let_def)

text \<open>
  C4, amended. For every feature row, every base fee and every value of the noise term
  (also as drawn from any generator state), the production oracle returns a fee in
  [0.05, 2.5] and the oracle of the advanced variant a fee in [0.05, 3.0].
\<close>

theorem oracle_bounds:
  "0.05 \<le> optimal_fee_of_noise cfg row noise \<and> optimal_fee_of_noise cfg row noise \<le> 2.5 \<and>
   0.05 \<le> fst (calculate_sophisticated_optimal_fee rng cfg row g) \<and>
   fst (calculate_sophisticated_optimal_fee rng cfg row g) \<le> 2.5 \<and>
   0.05 \<le> advanced_optimal_fee_of_noise cfg row noise \<and>
   advanced_optimal_fee_of_noise cfg row noise \<le> 3 \<and>
   0.05 \<le> fst (advanced_calculate_sophisticated_optimal_fee rng cfg row g) \<and>
   fst (advanced_calculate_sophisticated_optimal_fee rng cfg row g) \<le> 3"
  using optimal_fee_of_noise_bounds advanced_optimal_fee_of_noise_bounds
  by (simp add: calculate_sophisticated_optimal_fee_def
      advanced_calculate_sophisticated_optimal_fee_def split: prod.splits)

section \<open>The classifier as a decision table\<close>

text \<open>
  C8. The classifier is the first-match evaluation of the ordered rule table over
  (volatility, volume\_ratio, gas\_trend, |price\_change\_24h|); it does not change when
  the ten other columns do; its label is one of seven; and volatility above 20 with
  |price\_change\_24h| above 15 gives extreme\_volatility whatever the other values.
\<close>

theorem classify_first_match:
  "classify_market_condition row =
     first_match market_rules ''moderate'' (volatility row) (volume_ratio row) (gas_trend row)
       \<bar>price_change_24h row\<bar> \<and>
   classify_market_condition
     (row\<lparr>volume_24h := a1, price_change_1h := a2, market_cap := a3, gas_price_gwei := a4,
          liquidity_score := a5, hour_of_day := a6, day_of_week := a7, volume_ma_7d := a8,
          volatility_ma_7d := a9, price_momentum := a10\<rparr>) = classify_market_condition row \<and>
   classify_market_condition row \<in> market_labels \<and>
   (volatility row > 20 \<and> \<bar>price_change_24h row\<bar> > 15 \<longrightarrow>
      classify_market_condition row = ''extreme_volatility'')"
  by (simp add: classify_market_condition_def market_rules_def market_labels_def)

theorem classify_first_match_witness:
  "volatility sample_row > 20 \<and> \<bar>price_change_24h sample_row\<bar> > 15 \<and>
   classify_market_condition sample_row = ''extreme_volatility''"
proof -
  have h: "volatility sample_row > 20 \<and> \<bar>price_change_24h sample_row\<bar> > 15"
    by (simp add: sample_row_def)
  with classify_first_match [of sample_row] show ?thesis
    by blast
qed

section \<open>The reasoning as the ordered notes, joined\<close>

lemma model_consensus_analysis_note:
  "model_consensus_analysis fmt predictions reasons =
     reasons @ present [agreement_note fmt predictions]"
  by (simp add: model_consensus_analysis_def agreement_note_def present_def Let_def)

lemma market_condition_analysis_note:
  "market_condition_analysis fmt row reasons = reasons @ present [volatility_note fmt row]"
  by (simp add: market_condition_analysis_def volatility_note_def present_def)

lemma liquidity_analysis_note:
  "liquidity_analysis row reasons = reasons @ present [volume_note row]"
  by (simp add: liquidity_analysis_def volume_note_def present_def)

lemma network_conditions_note:
  "network_conditions fmt row reasons = reasons @ present [congestion_note fmt row]"
  by (simp add: network_conditions_def congestion_note_def present_def)

lemma time_based_factors_note:
  "time_based_factors row reasons = reasons @ present [time_note row]"
  by (simp add: time_based_factors_def time_note_def present_def)

lemma fee_level_assessment_note:
  "fee_level_assessment fmt cfg kind final_prediction reasons =
     (if BASE_FEE_RATE cfg = 0 \<and> kind = PythonFloat then Inl ZeroDivisionError
      else Inr (reasons @ present [deviation_note fmt cfg final_prediction]))"
proof (cases "BASE_FEE_RATE cfg = 0")
  case True
  then show ?thesis
    by (cases kind)
       (simp_all add: fee_level_assessment_def deviation_note_def fee_ratio_of_def present_def
          percent_above_def percent_below_def)
next
  case False
  then show ?thesis
    by (simp add: fee_level_assessment_def deviation_note_def fee_ratio_of_def present_def
        percent_above_def percent_below_def Let_def)
qed

lemma ordered_notes_append:
  "ordered_notes fmt cfg row predictions final_prediction =
     present [agreement_note fmt predictions] @ present [volatility_note fmt row]
       @ present [volume_note row] @ present [congestion_note fmt row]
       @ present [time_note row] @ present [deviation_note fmt cfg final_prediction]"
  unfolding ordered_notes_def by (simp add: present_def)

text \<open>
  For every formatter, base fee, feature row, prediction map and final fee, the generator
  returns the notes that apply, in the order model agreement, volatility, volume and
  liquidity, network congestion, time of day, deviation from the base fee, joined with
  ". " and closed by a period. The one exception is a plain Python float divided by a
  base fee of zero, which raises.
\<close>

lemma generate_production_reasoning_notes:
  "generate_production_reasoning fmt cfg row predictions kind final_prediction =
     (if BASE_FEE_RATE cfg = 0 \<and> kind = PythonFloat then Inl ZeroDivisionError
      else Inr (join ''. '' (ordered_notes fmt cfg row predictions final_prediction) @ ''.''))"
proof (cases "BASE_FEE_RATE cfg = 0 \<and> kind = PythonFloat")
  case True
  then show ?thesis
    by (simp add: generate_production_reasoning_def fee_level_assessment_note bind_err_def)
next
  case False
  then show ?thesis
    by (simp add: generate_production_reasoning_def model_consensus_analysis_note
        market_condition_analysis_note liquidity_analysis_note network_conditions_note
        time_based_factors_note fee_level_assessment_note ordered_notes_append bind_err_def)
qed

subsection \<open>The generator on the sample inputs\<close>

lemma show_nat_digit: "n < 10 \<Longrightarrow> show_nat n = [''0123456789'' ! n]"
  by (simp add: show_nat.simps)

lemma show_nat_more:
  "\<not> n < 10 \<Longrightarrow> show_nat n = show_nat (n div 10) @ [''0123456789'' ! (n mod 10)]"
  by (subst show_nat.simps) simp

lemma replicate_two: "replicate 2 x = [x, x]"
  by (simp add: numeral_2_eq_2)

lemmas fixed_point_simps =
  fixed_point_def round_half_even_def show_nat_digit show_nat_more replicate_two Let_def

lemma np_std_single: "np_std [x] = 0"
  by (simp add: np_std_def np_mean_def)

lemma np_std_pair: "np_std [1 / 5, 2 / 5] = 1 / 10"
proof -
  have "np_std [1 / 5, 2 / 5] = sqrt ((1 / 10)\<^sup>2)"
    unfolding np_std_def np_mean_def by (simp add: power2_eq_square)
  also have "\<dots> = 1 / 10"
    by simp
  finally show ?thesis .
qed

lemmas reasoning_simps =
  generate_production_reasoning_def model_consensus_analysis_def market_condition_analysis_def
  liquidity_analysis_def network_conditions_def time_based_factors_def
  fee_level_assessment_def bind_err_def sample_row_def sigma_def

text \<open>
  Two members that predict 0.2 and 0.4 (their deviation, 0.1, gives no note) and a final
  fee of 0.5 on the base fee 0.3: four notes, the last one with the fee 67% above.
\<close>

lemma reasoning_of_sample_row:
  "generate_production_reasoning fixed_point sample_config sample_row
     [(''random_forest'', 0.2), (''gradient_boosting'', 0.4)] NumpyFloat 0.5 =
   Inr (''Extreme volatility (22.0%) increases trading risk. '' @
        ''High network congestion (150 GWEI). '' @
        ''Low-activity period with reduced liquidity. '' @
        ''Fee 67% above base rate due to market conditions.'')"
  by (simp add: reasoning_simps np_std_pair sample_config_def fixed_point_simps)

text \<open>No note applies: the joined list is empty and the reasoning is the period alone.\<close>

lemma reasoning_without_notes:
  "generate_production_reasoning fixed_point sample_config quiet_row
     [(''random_forest'', 0.2), (''gradient_boosting'', 0.4)] NumpyFloat 0.3 = Inr ''.''"
  by (simp add: reasoning_simps np_std_pair sample_config_def quiet_row_def)

text \<open>
  C9. With \<^verbatim>\<open>BASE_FEE_RATE=0\<close> and a member that predicts 3.1, the final fee is the literal
  2.5 of the clamp, a plain float: the generator raises ZeroDivisionError at the division
  and returns no reasoning. With a member that predicts 0.5 the final fee is the numpy
  scalar and the generator returns its five notes, joined, the last one with
  \<^verbatim>\<open>inf\<close> percent.
\<close>

theorem reasoning_raises_at_zero_base_fee:
  "kind_of_final 3.1 = PythonFloat \<and> final_of 3.1 = 2.5 \<and>
   generate_production_reasoning fixed_point zero_fee_config sample_row
     [(''random_forest'', 3.1)] (kind_of_final 3.1) (final_of 3.1) = Inl ZeroDivisionError \<and>
   kind_of_final 0.5 = NumpyFloat \<and> final_of 0.5 = 0.5 \<and>
   generate_production_reasoning fixed_point zero_fee_config sample_row
     [(''random_forest'', 0.5)] (kind_of_final 0.5) (final_of 0.5) =
   Inr (''Strong model consensus ('' @ sigma @ ''=0.000). '' @
        ''Extreme volatility (22.0%) increases trading risk. '' @
        ''High network congestion (150 GWEI). '' @
        ''Low-activity period with reduced liquidity. '' @
        ''Fee inf% above base rate due to market conditions.'')"
  by (simp add: reasoning_simps np_std_single zero_fee_config_def kind_of_final_def
      final_of_def fixed_point_simps)

section \<open>The feature codec\<close>

lemma is_number_PyNum: "is_number (PyNum x)"
  by (simp add: is_number_def)

lemma num_of_PyNum: "num_of (PyNum x) = x"
  by (simp add: num_of_def)

lemma bind_py_get:
  "bind_err (py_get v k d) f = (if is_dict v then f (field_or v k d) else Inl AttributeError)"
  by (cases v) (simp_all add: is_dict_def field_or_def bind_err_def)

lemma bind_as_num:
  "bind_err (as_num v) f = (if is_number v then f (num_of v) else Inl TypeError)"
  by (cases v) (simp_all add: is_number_def num_of_def bind_err_def)

lemma bind_Inr: "bind_err (Inr x) f = f x"
  by (simp add: bind_err_def)

lemma bind_if:
  "bind_err (if c then a else b) f = (if c then bind_err a f else bind_err b f)"
  by simp

lemmas body_simps = extract_features_body_def no_coingecko_def well_typed_snapshot_def Let_def
      bind_py_get bind_as_num bind_Inr bind_if is_number_PyNum num_of_PyNum

lemma body_no_coingecko: "no_coingecko md \<Longrightarrow> extract_features_body clock md = Inr None"
  by (simp add: extract_features_body_def no_coingecko_def Let_def)

lemma body_ill_typed:
  "\<not> no_coingecko md \<Longrightarrow> \<not> well_typed_snapshot md \<Longrightarrow>
   extract_features_body clock md = Inl AttributeError \<or>
   extract_features_body clock md = Inl TypeError"
  by (auto simp add: body_simps split: if_splits)

lemma body_well_typed:
  assumes "\<not> no_coingecko md" and "well_typed_snapshot md"
  shows "\<exists>f. extract_features_body clock md = Inr (Some f) \<and>
     gas_trend f = (gas_price_gwei f - 28) / 372 \<and>
     liquidity_score f =
       (if market_cap f > 0 then volume_24h f / max (market_cap f) 1 * 100 else 0) \<and>
     hour_of_day f = hour clock \<and> day_of_week f = weekday clock \<and>
     (gas_price_missing md \<longrightarrow> gas_price_gwei f = 28)"
  using assms
  by (auto simp add: body_simps gas_price_missing_def field_or_def dict_get_def
      split: if_splits pyval.splits)

lemma extraction_None:
  "(extract_features_from_market_data clock md = None) =
   (no_coingecko md \<or> \<not> well_typed_snapshot md)"
proof (cases "no_coingecko md")
  case True
  then show ?thesis
    by (simp add: extract_features_from_market_data_def body_no_coingecko)
next
  case nc: False
  show ?thesis
  proof (cases "well_typed_snapshot md")
    case True
    with nc body_well_typed [of md clock] show ?thesis
      by (auto simp add: extract_features_from_market_data_def)
  next
    case False
    with nc body_ill_typed [of md clock] show ?thesis
      by (auto simp add: extract_features_from_market_data_def)
  qed
qed

lemma extraction_Some:
  assumes "extract_features_from_market_data clock md = Some f"
  shows "gas_trend f = (gas_price_gwei f - 28) / 372 \<and>
     liquidity_score f =
       (if market_cap f > 0 then volume_24h f / max (market_cap f) 1 * 100 else 0) \<and>
     hour_of_day f = hour clock \<and> day_of_week f = weekday clock \<and>
     (gas_price_missing md \<longrightarrow> gas_price_gwei f = 28)"
proof -
  from assms extraction_None [of clock md]
  have "\<not> no_coingecko md" and "well_typed_snapshot md"
    by auto
  from body_well_typed [OF this, of clock] assms show ?thesis
    by (auto simp add: extract_features_from_market_data_def)
qed

lemmas snapshot_simps =
  extract_features_from_market_data_def extract_features_body_def dict_get_def bind_err_def
  hour_def weekday_def Let_def

text \<open>
  The codec on \<open>sample_snapshot\<close>, whose network sub-record is \<^verbatim>\<open>None\<close>, at noon on a
  Monday.
\<close>

lemma extraction_of_sample_snapshot:
  "extract_features_from_market_data (now sample_world) sample_snapshot = Some quiet_row"
  by (simp add: snapshot_simps sample_snapshot_def sample_world_def quiet_row_def)

text \<open>
  C10, as stated, fails: the coingecko sub-record of \<open>null_volume_snapshot\<close> is present
  and not empty, its volume is \<^verbatim>\<open>None\<close>, \<^verbatim>\<open>volume_24h * 0.92\<close> raises TypeError and the
  handler returns \<^verbatim>\<open>None\<close>.
\<close>

theorem extraction_none_with_coingecko:
  "dict_get null_volume_snapshot ''coingecko'' (PyDict []) =
     PyDict [(''volatility'', PyNum 1), (''volume_24h'', PyNone),
             (''price_change_24h'', PyNum 1), (''market_cap'', PyNum 0)] \<and>
   \<not> no_coingecko null_volume_snapshot \<and>
   extract_features_body (now sample_world) null_volume_snapshot = Inl TypeError \<and>
   extract_features_from_market_data (now sample_world) null_volume_snapshot = None"
  by (simp add: snapshot_simps null_volume_snapshot_def no_coingecko_def)

text \<open>
  C10, amended. Extraction returns \<^verbatim>\<open>None\<close> if and only if the coingecko sub-record is
  missing or false (\<^verbatim>\<open>None\<close>, empty), or the snapshot is not well typed: the coingecko
  sub-record or a true network sub-record is not a dictionary, or one of volatility,
  volume\_24h, price\_change\_24h, market\_cap, gas\_price\_gwei is not a number. When the
  coingecko sub-record is there and well typed and the gas price is missing (the network
  sub-record absent, false or without the key), extraction succeeds with gas\_price\_gwei
  28 and gas\_trend 0.
\<close>

theorem extraction_unavailable:
  "(extract_features_from_market_data clock md = None) =
     (no_coingecko md \<or> \<not> well_typed_snapshot md) \<and>
   (\<not> no_coingecko md \<and> well_typed_snapshot md \<and> gas_price_missing md \<longrightarrow>
      (case extract_features_from_market_data clock md of
         None \<Rightarrow> False
       | Some f \<Rightarrow> gas_price_gwei f = 28 \<and> gas_trend f = 0))"
proof (cases "extract_features_from_market_data clock md")
  case None
  with extraction_None [of clock md] show ?thesis
    by auto
next
  case (Some f)
  with extraction_None [of clock md] extraction_Some [OF Some] show ?thesis
    by auto
qed

theorem extraction_unavailable_witness:
  "\<not> no_coingecko sample_snapshot \<and> well_typed_snapshot sample_snapshot \<and>
   gas_price_missing sample_snapshot \<and>
   extract_features_from_market_data (now sample_world) sample_snapshot \<noteq> None \<and>
   (case extract_features_from_market_data (now sample_world) sample_snapshot of
      None \<Rightarrow> False
    | Some f \<Rightarrow> gas_price_gwei f = 28 \<and> gas_trend f = 0)"
proof -
  have "\<not> no_coingecko sample_snapshot \<and> well_typed_snapshot sample_snapshot \<and>
        gas_price_missing sample_snapshot"
    by (simp add: no_coingecko_def well_typed_snapshot_def gas_price_missing_def
        sample_snapshot_def dict_get_def is_dict_def is_number_def field_or_def)
  with extraction_unavailable [of "now sample_world" sample_snapshot] show ?thesis
    by simp
qed

section \<open>The derived fields in the codec and in the generator\<close>

lemma label_rows_fst: "map fst (fst (label_rows rng cfg rows g)) = rows"
  by (induction rows arbitrary: g) (simp_all add: case_prod_beta Let_def)

lemma generate_rows_step:
  "generate_rows rng start (Suc k) i data g =
     (if 0 \<le> start + int i \<and> start + int i < 3652059 * 24
      then generate_rows rng start k (Suc i)
             (data @ [fst (generate_row rng (start + int i) i data g)])
             (snd (generate_row rng (start + int i) i data g))
      else Inl OverflowError)"
  by (simp add: bind_err_def add_hours_def case_prod_beta Let_def)

lemma generate_rows_take:
  "generate_rows rng start k i data g = Inr (d, g') \<Longrightarrow>
   take (length data) d = data \<and> length d = length data + k"
proof (induction k arbitrary: i data g)
  case 0
  then show ?case by simp
next
  case (Suc k)
  from Suc.prems have
    "generate_rows rng start k (Suc i)
       (data @ [fst (generate_row rng (start + int i) i data g)])
       (snd (generate_row rng (start + int i) i data g)) = Inr (d, g')"
    by (simp add: generate_rows_step del: generate_rows.simps split: if_splits)
  from Suc.IH [OF this]
  have t: "take (Suc (length data)) d = data @ [fst (generate_row rng (start + int i) i data g)]"
    and l: "length d = Suc (length data) + k"
    by simp_all
  from t have "take (length data) (take (Suc (length data)) d) = data"
    by simp
  then have "take (length data) d = data"
    by (simp add: min_def)
  with l show ?case
    by simp
qed

lemma generate_rows_returns:
  "0 \<le> start + int i \<Longrightarrow> start + int i + int k \<le> 3652059 * 24 \<Longrightarrow>
   \<exists>d g'. generate_rows rng start k i data g = Inr (d, g')"
proof (induction k arbitrary: i data g)
  case 0
  then show ?case by simp
next
  case (Suc k)
  then have "0 \<le> start + int (Suc i)" and "start + int (Suc i) + int k \<le> 3652059 * 24"
    by simp_all
  from Suc.IH [OF this] Suc.prems show ?case
    by (simp add: generate_rows_step del: generate_rows.simps)
qed

lemma generate_rows_all:
  assumes "generate_rows rng start k i data g = Inr (data', g')" and "list_all P data"
    and "\<And>t i data g. P (fst (generate_row rng t i data g))"
  shows "list_all P data'"
  using assms(1,2)
proof (induction k arbitrary: i data g)
  case 0
  then show ?case by simp
next
  case (Suc k)
  then show ?case
    by (auto simp add: bind_err_def add_hours_def assms(3) case_prod_beta Let_def
        split: sum.splits if_splits)
qed

lemma rows_of_all:
  assumes "\<And>t i data g. P (fst (generate_row rng t i data g))"
  shows "list_all P (rows_of (generate_realistic_training_data rng cfg clock n g0))"
proof (cases "generate_realistic_training_data rng cfg clock n g0")
  case (Inl e)
  then show ?thesis by (simp add: rows_of_def)
next
  case (Inr r)
  then obtain start data g where
    rows: "generate_rows rng start n 0 [] (seed rng 42) = Inr (data, g)" and
    r: "r = label_rows rng cfg data g"
    by (auto simp add: generate_realistic_training_data_def bind_err_def Let_def
        split: sum.splits)
  have "list_all P data"
    by (rule generate_rows_all [where P = P, OF rows]) (simp_all add: assms)
  with Inr r show ?thesis
    by (simp add: rows_of_def case_prod_beta label_rows_fst)
qed

text \<open>
  While the hours stay inside the range of dates, a call for \<open>n\<close> samples returns \<open>n\<close>
  rows, the first one made at the clock reading less 365 days from the seeded state.
\<close>

lemma first_generated_row:
  assumes "8760 \<le> clock" and "clock - 8760 + int n \<le> 3652059 * 24" and "n > 0"
  shows "take 1 (rows_of (generate_realistic_training_data rng cfg clock n g0)) =
           [fst (generate_row rng (clock - 8760) 0 [] (seed rng 42))] \<and>
         length (rows_of (generate_realistic_training_data rng cfg clock n g0)) = n"
proof -
  from assms(3) obtain k where n: "n = Suc k"
    by (cases n) simp_all
  from assms(1,2) n have start: "add_hours clock (- 8760) = Inr (clock - 8760)"
    by (simp add: add_hours_def)
  from assms(1,2) generate_rows_returns [of "clock - 8760" 0 n rng "[]" "seed rng 42"]
  obtain d g' where d: "generate_rows rng (clock - 8760) n 0 [] (seed rng 42) = Inr (d, g')"
    by auto
  from d n assms(1,2) have
    "generate_rows rng (clock - 8760) k (Suc 0)
       [fst (generate_row rng (clock - 8760) 0 [] (seed rng 42))]
       (snd (generate_row rng (clock - 8760) 0 [] (seed rng 42))) = Inr (d, g')"
    by (simp add: generate_rows_step del: generate_rows.simps split: if_splits)
  from generate_rows_take [OF this]
  have "take 1 d = [fst (generate_row rng (clock - 8760) 0 [] (seed rng 42))]"
    and "length d = n"
    by (simp_all add: n)
  moreover have "rows_of (generate_realistic_training_data rng cfg clock n g0) = d"
    by (simp add: generate_realistic_training_data_def start d bind_err_def rows_of_def
        case_prod_beta label_rows_fst Let_def)
  ultimately show ?thesis
    by simp
qed

lemma market_cap_with_fluctuations_ge:
  "fst (market_cap_with_fluctuations rng g) \<ge> 15000000000"
  unfolding market_cap_with_fluctuations_def Let_def by (simp add: case_prod_beta)

lemma generate_row_derivation:
  "generator_derivation (fst (generate_row rng t i data g)) \<and>
   market_cap (fst (generate_row rng t i data g)) \<ge> 15000000000 \<and>
   hour_of_day (fst (generate_row rng t i data g)) = hour t \<and>
   day_of_week (fst (generate_row rng t i data g)) = weekday t"
  unfolding generate_row_def generator_derivation_def Let_def
  using market_cap_with_fluctuations_ge by (simp add: case_prod_beta)

lemma derivations_agree:
  "market_cap r \<ge> 1 \<Longrightarrow>
   codec_derivation r = generator_derivation r \<and>
   stated_liquidity_score r = (volume_24h r / market_cap r) * 100"
  by (simp add: codec_derivation_def generator_derivation_def stated_liquidity_score_def
      max_def)

lemma extraction_derivation:
  "extract_features_from_market_data clock md = Some f \<Longrightarrow> codec_derivation f"
  using extraction_Some [of clock md f] by (simp add: codec_derivation_def)

text \<open>
  C7, as stated, fails: \<open>no_market_cap_snapshot\<close> has a volume of 5 and no market
  capitalisation; the codec accepts it and gives the liquidity score 0, where
  \<^verbatim>\<open>volume_24h / max(market_cap, 1) * 100\<close> is 500.
\<close>

theorem codec_liquidity_without_market_cap:
  "map_option volume_24h
     (extract_features_from_market_data (now sample_world) no_market_cap_snapshot) = Some 5 \<and>
   map_option market_cap
     (extract_features_from_market_data (now sample_world) no_market_cap_snapshot) = Some 0 \<and>
   map_option liquidity_score
     (extract_features_from_market_data (now sample_world) no_market_cap_snapshot) = Some 0 \<and>
   map_option stated_liquidity_score
     (extract_features_from_market_data (now sample_world) no_market_cap_snapshot) = Some 500"
  by (simp add: snapshot_simps no_market_cap_snapshot_def stated_liquidity_score_def)

text \<open>
  C7, amended. On every snapshot that the codec accepts it computes liquidity\_score as
  volume\_24h / max(market\_cap, 1) * 100 when market\_cap is positive and as 0 otherwise,
  and gas\_trend as (gas\_price\_gwei - 28) / 372. The generator computes gas\_trend by the
  same formula and liquidity\_score as volume\_24h / market\_cap * 100, with neither the
  maximum nor the guard. The two derivations agree, also with the formula as stated,
  wherever market\_cap is at least 1, and so on every generated row, whose market\_cap is
  at least 15e9.
\<close>

theorem codec_and_generator_derivations:
  "(case extract_features_from_market_data clock md of
      None \<Rightarrow> True
    | Some f \<Rightarrow>
        codec_derivation f \<and>
        (market_cap f \<ge> 1 \<longrightarrow>
           generator_derivation f \<and> liquidity_score f = stated_liquidity_score f)) \<and>
   list_all generator_derivation
     (rows_of (generate_realistic_training_data rng cfg clock' n g0)) \<and>
   list_all codec_derivation
     (rows_of (generate_realistic_training_data rng cfg clock' n g0)) \<and>
   list_all (\<lambda>r. market_cap r \<ge> 15000000000)
     (rows_of (generate_realistic_training_data rng cfg clock' n g0))"
proof -
  have codec: "case extract_features_from_market_data clock md of
      None \<Rightarrow> True
    | Some f \<Rightarrow>
        codec_derivation f \<and>
        (market_cap f \<ge> 1 \<longrightarrow>
           generator_derivation f \<and> liquidity_score f = stated_liquidity_score f)"
  proof (cases "extract_features_from_market_data clock md")
    case None
    then show ?thesis by simp
  next
    case (Some f)
    from extraction_derivation [OF Some] derivations_agree [of f] Some show ?thesis
      by (auto simp add: generator_derivation_def)
  qed
  have both: "list_all (\<lambda>r. generator_derivation r \<and> market_cap r \<ge> 15000000000)
     (rows_of (generate_realistic_training_data rng cfg clock' n g0))"
    by (rule rows_of_all) (simp add: generate_row_derivation)
  then have "list_all generator_derivation
     (rows_of (generate_realistic_training_data rng cfg clock' n g0))"
    and "list_all (\<lambda>r. market_cap r \<ge> 15000000000)
     (rows_of (generate_realistic_training_data rng cfg clock' n g0))"
    by (simp_all add: list_all_iff)
  moreover from both have "list_all codec_derivation
     (rows_of (generate_realistic_training_data rng cfg clock' n g0))"
    using derivations_agree by (auto simp add: list_all_iff)
  ultimately show ?thesis
    using codec by blast
qed

theorem codec_and_generator_derivations_witness:
  "extract_features_from_market_data (now sample_world) sample_snapshot = Some quiet_row \<and>
   market_cap quiet_row \<ge> 1 \<and> codec_derivation quiet_row \<and> generator_derivation quiet_row \<and>
   liquidity_score quiet_row = stated_liquidity_score quiet_row \<and>
   length (rows_of
     (generate_realistic_training_data sample_rng sample_config (now sample_world) 3 0)) = 3 \<and>
   list_all generator_derivation (rows_of
     (generate_realistic_training_data sample_rng sample_config (now sample_world) 3 0)) \<and>
   list_all codec_derivation (rows_of
     (generate_realistic_training_data sample_rng sample_config (now sample_world) 3 0))"
proof -
  have "market_cap quiet_row \<ge> 1"
    by (simp add: quiet_row_def)
  moreover have "length (rows_of
     (generate_realistic_training_data sample_rng sample_config (now sample_world) 3 0)) = 3"
    using first_generated_row [of "now sample_world" 3 sample_rng sample_config 0]
    by (simp add: sample_world_def)
  ultimately show ?thesis
    using codec_and_generator_derivations
      [of "now sample_world" sample_snapshot sample_rng sample_config "now sample_world" 3 0]
      extraction_of_sample_snapshot
    by simp
qed

section \<open>Two runs of the generators\<close>

text \<open>
  Both generators seed numpy with 42 before the first draw, so neither depends on the
  state the global generator was in; the advanced one reads nothing else.
\<close>

lemma generators_ignore_prior_state:
  "generate_realistic_training_data rng cfg clock n g1 =
   generate_realistic_training_data rng cfg clock n g2 \<and>
   generate_advanced_training_data rng cfg n g1 = generate_advanced_training_data rng cfg n g2"
  by (simp add: generate_realistic_training_data_def generate_advanced_training_data_def)

text \<open>
  C2. The production generator also reads the clock. Two calls for the default 10000
  samples on one day, at 03:00 and at 14:00, with the same seed 42 and the same samplers:
  the first row of the one has hour\_of\_day 3, the first row of the other 14, and the two
  data sets differ.
\<close>

theorem production_generator_reads_the_clock:
  "map hour_of_day (take 1 (rows_of
     (generate_realistic_training_data sample_rng sample_config clock_at_3 10000 0))) = [3] \<and>
   map hour_of_day (take 1 (rows_of
     (generate_realistic_training_data sample_rng sample_config clock_at_14 10000 0))) = [14] \<and>
   generate_realistic_training_data sample_rng sample_config clock_at_3 10000 0 \<noteq>
   generate_realistic_training_data sample_rng sample_config clock_at_14 10000 0"
proof -
  have a: "map hour_of_day (take 1 (rows_of
     (generate_realistic_training_data sample_rng sample_config clock_at_3 10000 0))) = [3]"
    using first_generated_row [of clock_at_3 10000 sample_rng sample_config 0]
    by (simp add: generate_row_derivation hour_def clock_at_3_def)
  have b: "map hour_of_day (take 1 (rows_of
     (generate_realistic_training_data sample_rng sample_config clock_at_14 10000 0))) = [14]"
    using first_generated_row [of clock_at_14 10000 sample_rng sample_config 0]
    by (simp add: generate_row_derivation hour_def clock_at_14_def)
  from a b have "generate_realistic_training_data sample_rng sample_config clock_at_3 10000 0 \<noteq>
   generate_realistic_training_data sample_rng sample_config clock_at_14 10000 0"
    by auto
  with a b show ?thesis
    by blast
qed

section \<open>The prediction\<close>

text \<open>
  The body returns the fallback record or a record with the ten fields; the caller gets
  the one or the other, the fallback also for every exception of the body.
\<close>

lemma predict_body_shape:
  assumes "predict_body w cfg self market_data = Inr result"
  shows "result = fallback_prediction w cfg \<or> map fst result = full_fields"
  using assms
  by (auto simp add: predict_body_def bind_err_def Let_def full_fields_def
      split: option.splits sum.splits prod.splits if_splits)

lemma predict_shape:
  "predict_optimal_fee w cfg self market_data = fallback_prediction w cfg \<or>
   map fst (predict_optimal_fee w cfg self market_data) = full_fields"
  using predict_body_shape [of w cfg self market_data]
  by (cases "predict_body w cfg self market_data") (auto simp add: predict_optimal_fee_def)

lemma predict_no_coingecko:
  assumes "no_coingecko md"
    and "market_data = Some md \<or> market_data = None \<and> get_live_market_data w = Inr md"
  shows "predict_optimal_fee w cfg self market_data = fallback_prediction w cfg"
  using assms
  by (auto simp add: predict_optimal_fee_def predict_body_def bind_err_def
      extract_features_from_market_data_def body_no_coingecko)

text \<open>
  The blend on two maps with the same keys in the same order, as the loop over the members
  builds them.
\<close>

lemma subscript_map_of: "map_of d k = Some v \<Longrightarrow> subscript d k = Inr v"
  by (simp add: subscript_def)

lemma weighted_sum_lookup:
  "\<forall>(n, p) \<in> set ps. map_of cs n \<noteq> None \<Longrightarrow>
   weighted_sum ps cs = Inr (sum_list (map (\<lambda>(n, p). p * the (map_of cs n)) ps))"
  by (induction ps) (auto simp add: bind_err_def subscript_def split: option.splits)

lemma aligned_lookup:
  assumes "distinct (map fst cs)" and "map fst cs = map fst ps"
  shows "map (\<lambda>(n, p). p * the (map_of cs n)) ps = map2 (*) (map snd ps) (map snd cs)"
proof (rule nth_equalityI)
  from assms(2) have len: "length cs = length ps"
    by (metis length_map)
  then show "length (map (\<lambda>(n, p). p * the (map_of cs n)) ps) =
             length (map2 (*) (map snd ps) (map snd cs))"
    by simp
  fix i
  assume "i < length (map (\<lambda>(n, p). p * the (map_of cs n)) ps)"
  then have i: "i < length ps"
    by simp
  with len have "cs ! i \<in> set cs"
    by simp
  then have "(fst (cs ! i), snd (cs ! i)) \<in> set cs"
    by simp
  with assms(1) have "map_of cs (fst (cs ! i)) = Some (snd (cs ! i))"
    by (rule map_of_is_SomeI)
  moreover from assms(2) i len have "fst (cs ! i) = fst (ps ! i)"
    by (metis nth_map)
  ultimately have "the (map_of cs (fst (ps ! i))) = snd (cs ! i)"
    by simp
  with i len show "map (\<lambda>(n, p). p * the (map_of cs n)) ps ! i =
                   map2 (*) (map snd ps) (map snd cs) ! i"
    by (simp add: case_prod_beta)
qed

lemma weighted_sum_aligned:
  assumes "distinct (map fst ps)" and "map fst cs = map fst ps"
  shows "weighted_sum ps cs = Inr (sum_list (map2 (*) (map snd ps) (map snd cs)))"
proof -
  have "map_of cs n \<noteq> None" if "(n, p) \<in> set ps" for n p
  proof -
    from that have "n \<in> fst ` set ps"
      by (metis image_eqI fst_conv)
    with assms(2) have "n \<in> fst ` set cs"
      by (metis set_map)
    then show ?thesis
      by (simp add: map_of_eq_None_iff)
  qed
  then have "\<forall>(n, p) \<in> set ps. map_of cs n \<noteq> None"
    by blast
  then have "weighted_sum ps cs = Inr (sum_list (map (\<lambda>(n, p). p * the (map_of cs n)) ps))"
    by (rule weighted_sum_lookup)
  with assms show ?thesis
    by (simp add: aligned_lookup)
qed

lemma same_keys_lookup:
  assumes "map fst cs = map fst ps"
  shows "(map_of cs k = None) = (map_of ps k = None)"
  using assms by (metis map_of_eq_None_iff set_map)

lemma blend_aligned:
  assumes "distinct (map fst predictions)"
    and "map fst confidences = map fst predictions"
  shows "blend predictions confidences best =
     (let p = (case best_member best predictions of
                 Some v \<Rightarrow> v | None \<Rightarrow> np_mean (map snd predictions));
          c = (case best_member best confidences of
                 Some v \<Rightarrow> v | None \<Rightarrow> np_mean (map snd confidences));
          e = (if sum_list (map snd confidences) > 0
               then weighted_mean (map snd predictions) (map snd confidences) else p)
      in Inr ((kind_of_final p, max 0.05 (min p 2.5)), c, e))"
proof -
  have prim: "primary best predictions confidences =
     Inr (case best_member best predictions of
            Some v \<Rightarrow> v | None \<Rightarrow> np_mean (map snd predictions),
          case best_member best confidences of
            Some v \<Rightarrow> v | None \<Rightarrow> np_mean (map snd confidences))"
  proof (cases best)
    case None
    then show ?thesis
      by (simp add: primary_def best_member_def)
  next
    case (Some name)
    with same_keys_lookup [OF assms(2), of name] show ?thesis
      by (auto simp add: primary_def best_member_def bind_err_def subscript_def
          split: option.splits)
  qed
  show ?thesis
    by (simp add: blend_def prim bind_err_def ensemble_def weighted_sum_aligned [OF assms]
        final_of_def weighted_mean_def Let_def)
qed

lemma collect_predictions_keys:
  "map fst (snd (collect_predictions ms row)) = map fst (fst (collect_predictions ms row)) \<and>
   set (map fst (fst (collect_predictions ms row))) \<subseteq> set (map fst ms)"
proof (induction ms row rule: collect_predictions.induct)
  case (1 row)
  then show ?case by simp
next
  case (2 model_name ms row)
  then show ?case by auto
next
  case (3 model_name model ms row)
  then show ?case
    by (cases "model row") (auto simp add: case_prod_beta Let_def)
qed

lemma collect_predictions_distinct:
  "distinct (map fst ms) \<Longrightarrow> distinct (map fst (fst (collect_predictions ms row)))"
proof (induction ms row rule: collect_predictions.induct)
  case (1 row)
  then show ?case by simp
next
  case (2 model_name ms row)
  then show ?case by simp
next
  case (3 model_name model ms row)
  with collect_predictions_keys [of ms row] show ?case
    by (cases "model row") (auto simp add: case_prod_beta Let_def)
qed

text \<open>
  The sample predictor on the row of \<open>sample_snapshot\<close>: its best model, the neural
  network, has not been built, the forest predicts 0.2 and the boosting 0.4.
\<close>

lemma blend_of_sample:
  "blend [(''random_forest'', 0.2), (''gradient_boosting'', 0.4)]
         [(''random_forest'', 0.87), (''gradient_boosting'', 0.84)] (Some ''neural_network'') =
     Inr ((NumpyFloat, 0.3), 0.855, 17 / 57)"
  by (simp add: blend_def primary_def ensemble_def bind_err_def subscript_def np_mean_def
      final_of_def kind_of_final_def)

lemma collect_of_sample:
  "collect_predictions (models sample_predictor) quiet_row =
     ([(''random_forest'', 0.2), (''gradient_boosting'', 0.4)],
      [(''random_forest'', 0.87), (''gradient_boosting'', 0.84)])"
  by (simp add: sample_predictor_def quiet_row_def calculate_model_confidence_def
      base_confidence_def confidence_adjustments_def Let_def)

lemma py_round_samples:
  "py_round 4 (3 / 10) = 0.3 \<and> py_round 3 (855 / 1000) = 0.855 \<and>
   py_round 4 (17 / 57) = 0.2982 \<and> py_round 4 (1 / 5) = 0.2 \<and> py_round 4 (2 / 5) = 0.4 \<and>
   py_round 3 (87 / 100) = 0.87 \<and> py_round 3 (84 / 100) = 0.84"
  by (simp add: py_round_def round_half_even_def Let_def)

lemma prediction_of_sample_snapshot:
  "predict_optimal_fee sample_world sample_config sample_predictor (Some sample_snapshot) =
     [(''recommended_fee'', PyNum 0.3),
      (''confidence'', PyNum 0.855),
      (''reasoning'', PyStr ''.''),
      (''market_condition'', PyStr ''moderate''),
      (''primary_model'', PyStr ''neural_network''),
      (''ensemble_prediction'', PyNum 0.2982),
      (''all_predictions'',
         PyDict [(''random_forest'', PyNum 0.2), (''gradient_boosting'', PyNum 0.4)]),
      (''model_confidences'',
         PyDict [(''random_forest'', PyNum 0.87), (''gradient_boosting'', PyNum 0.84)]),
      (''features_used'', PyNum 14),
      (''prediction_timestamp'', PyStr ''2025-01-06T12:00:00'')]"
proof -
  have row: "extract_features_from_market_data (now sample_world) sample_snapshot = Some quiet_row"
    by (rule extraction_of_sample_snapshot)
  have cls: "classify_market_condition quiet_row = ''moderate''"
    by (simp add: classify_market_condition_def quiet_row_def)
  have rsn: "generate_production_reasoning (format_f sample_world) sample_config quiet_row
     [(''random_forest'', 1 / 5), (''gradient_boosting'', 2 / 5)] NumpyFloat (3 / 10) = Inr ''.''"
    using reasoning_without_notes by (simp add: sample_world_def)
  have bl: "blend [(''random_forest'', 1 / 5), (''gradient_boosting'', 2 / 5)]
         [(''random_forest'', 87 / 100), (''gradient_boosting'', 84 / 100)]
         (best_model_name sample_predictor) = Inr ((NumpyFloat, 3 / 10), 855 / 1000, 17 / 57)"
    using blend_of_sample by (simp add: sample_predictor_def)
  have col: "collect_predictions (models sample_predictor) quiet_row =
     ([(''random_forest'', 1 / 5), (''gradient_boosting'', 2 / 5)],
      [(''random_forest'', 87 / 100), (''gradient_boosting'', 84 / 100)])"
    using collect_of_sample by simp
  have trained: "is_trained sample_predictor" 
    and cols: "length (feature_columns sample_predictor) = 14"
    and best: "best_model_name sample_predictor = Some ''neural_network''"
    by (simp_all add: sample_predictor_def)
  have stamp: "now_isoformat sample_world = ''2025-01-06T12:00:00''"
    by (simp add: sample_world_def)
  from py_round_samples row col bl rsn cls trained cols best stamp show ?thesis
    unfolding predict_optimal_fee_def predict_body_def
    by (simp add: bind_err_def rounded_def)
qed

text \<open>A member that raises is left out; the record is made from the other one.\<close>

lemma prediction_with_raising_member:
  "predict_optimal_fee sample_world sample_config faulty_predictor (Some sample_snapshot) =
     [(''recommended_fee'', PyNum 0.4),
      (''confidence'', PyNum 0.84),
      (''reasoning'', PyStr (''Strong model consensus ('' @ sigma @ ''=0.000).'')),
      (''market_condition'', PyStr ''moderate''),
      (''primary_model'', PyStr ''gradient_boosting''),
      (''ensemble_prediction'', PyNum 0.4),
      (''all_predictions'', PyDict [(''gradient_boosting'', PyNum 0.4)]),
      (''model_confidences'', PyDict [(''gradient_boosting'', PyNum 0.84)]),
      (''features_used'', PyNum 14),
      (''prediction_timestamp'', PyStr ''2025-01-06T12:00:00'')]"
proof -
  have row: "extract_features_from_market_data (now sample_world) sample_snapshot = Some quiet_row"
    by (rule extraction_of_sample_snapshot)
  have cls: "classify_market_condition quiet_row = ''moderate''"
    by (simp add: classify_market_condition_def quiet_row_def)
  have col: "collect_predictions (models faulty_predictor) quiet_row =
     ([(''gradient_boosting'', 0.4)], [(''gradient_boosting'', 0.84)])"
    by (simp add: faulty_predictor_def sample_predictor_def quiet_row_def
        calculate_model_confidence_def base_confidence_def confidence_adjustments_def Let_def)
  have bl: "blend [(''gradient_boosting'', 0.4)] [(''gradient_boosting'', 0.84)]
              (best_model_name faulty_predictor) = Inr ((NumpyFloat, 0.4), 0.84, 0.4)"
    by (simp add: faulty_predictor_def blend_def primary_def ensemble_def bind_err_def
        subscript_def final_of_def kind_of_final_def)
  have rsn: "generate_production_reasoning (format_f sample_world) sample_config quiet_row
     [(''gradient_boosting'', 0.4)] NumpyFloat 0.4 =
       Inr (''Strong model consensus ('' @ sigma @ ''=0.000).'')"
    by (simp add: generate_production_reasoning_def model_consensus_analysis_def
        market_condition_analysis_def liquidity_analysis_def network_conditions_def
        time_based_factors_def fee_level_assessment_def bind_err_def np_std_single
        sample_config_def quiet_row_def sample_world_def fixed_point_simps)
  have rnd: "py_round 4 (2 / 5) = 0.4 \<and> py_round 3 (84 / 100) = 0.84"
    by (simp add: py_round_def round_half_even_def Let_def)
  have misc: "is_trained faulty_predictor"
    "length (feature_columns faulty_predictor) = 14"
    "best_model_name faulty_predictor = Some ''gradient_boosting''"
    "now_isoformat sample_world = ''2025-01-06T12:00:00''"
    by (simp_all add: faulty_predictor_def sample_predictor_def sample_world_def)
  from rnd row col bl rsn cls misc show ?thesis
    unfolding predict_optimal_fee_def predict_body_def
    by (simp add: bind_err_def rounded_def)
qed

text \<open>
  With a base fee of zero and a fee clamped to 2.5 the reasoning raises, and the answer is
  the fallback.
\<close>

lemma prediction_at_zero_base_fee:
  "predict_body sample_world zero_fee_config overheated_predictor (Some sample_snapshot) =
     Inl ZeroDivisionError \<and>
   predict_optimal_fee sample_world zero_fee_config overheated_predictor (Some sample_snapshot) =
     fallback_prediction sample_world zero_fee_config"
proof -
  have row: "extract_features_from_market_data (now sample_world) sample_snapshot = Some quiet_row"
    by (rule extraction_of_sample_snapshot)
  have col: "collect_predictions (models overheated_predictor) quiet_row =
     ([(''random_forest'', 3.1)], [(''random_forest'', 0.87)])"
    by (simp add: overheated_predictor_def sample_predictor_def quiet_row_def
        calculate_model_confidence_def base_confidence_def confidence_adjustments_def Let_def)
  have bl: "blend [(''random_forest'', 3.1)] [(''random_forest'', 0.87)]
              (best_model_name overheated_predictor) = Inr ((PythonFloat, 2.5), 0.87, 3.1)"
    by (simp add: overheated_predictor_def blend_def primary_def ensemble_def bind_err_def
        subscript_def final_of_def kind_of_final_def)
  have rsn: "generate_production_reasoning (format_f sample_world) zero_fee_config quiet_row
     [(''random_forest'', 3.1)] PythonFloat 2.5 = Inl ZeroDivisionError"
    by (simp add: generate_production_reasoning_notes zero_fee_config_def)
  have misc: "is_trained overheated_predictor"
    by (simp_all add: overheated_predictor_def sample_predictor_def)
  from row col bl rsn misc
  have "predict_body sample_world zero_fee_config overheated_predictor (Some sample_snapshot) =
     Inl ZeroDivisionError"
    unfolding predict_body_def by (simp add: bind_err_def)
  then show ?thesis
    by (simp add: predict_optimal_fee_def)
qed

text \<open>
  C1. For every snapshot without coingecko data (none, \<^verbatim>\<open>None\<close> or an empty one), given
  by the caller or fetched live, every predictor, clock and base fee, the prediction is the
  fallback record: \<^verbatim>\<open>primary_model\<close> is "fallback", \<^verbatim>\<open>recommended_fee\<close> is the base fee and
  \<^verbatim>\<open>confidence\<close> is 0.4; the function returns it and raises nothing.
\<close>

theorem fallback_without_coingecko:
  assumes "no_coingecko md"
    and "market_data = Some md \<or> market_data = None \<and> get_live_market_data w = Inr md"
  shows "predict_optimal_fee w cfg self market_data = fallback_prediction w cfg \<and>
     map_of (predict_optimal_fee w cfg self market_data) ''primary_model'' =
       Some (PyStr ''fallback'') \<and>
     map_of (predict_optimal_fee w cfg self market_data) ''recommended_fee'' =
       Some (PyNum (BASE_FEE_RATE cfg)) \<and>
     map_of (predict_optimal_fee w cfg self market_data) ''confidence'' = Some (PyNum 0.4)"
  using predict_no_coingecko [OF assms] by (simp add: fallback_prediction_def)

theorem fallback_without_coingecko_witness:
  "no_coingecko failed_fetch_snapshot \<and>
   predict_optimal_fee sample_world sample_config sample_predictor (Some failed_fetch_snapshot) =
     [(''recommended_fee'', PyNum 0.3),
      (''confidence'', PyNum 0.4),
      (''reasoning'', PyStr ''Using fallback base fee due to insufficient data or model errors''),
      (''market_condition'', PyStr ''unknown''),
      (''primary_model'', PyStr ''fallback''),
      (''prediction_timestamp'', PyStr ''2025-01-06T12:00:00'')] \<and>
   map_of (predict_optimal_fee sample_world sample_config sample_predictor
             (Some failed_fetch_snapshot)) ''primary_model'' = Some (PyStr ''fallback'')"
proof -
  have "no_coingecko failed_fetch_snapshot"
    by (simp add: no_coingecko_def failed_fetch_snapshot_def dict_get_def)
  with fallback_without_coingecko
         [of failed_fetch_snapshot "Some failed_fetch_snapshot" sample_world sample_config
             sample_predictor]
  show ?thesis
    by (simp add: fallback_prediction_def sample_config_def sample_world_def)
qed

text \<open>
  C5, as stated, fails: on the empty snapshot the prediction is the fallback record, which
  has six fields and none of \<^verbatim>\<open>ensemble_prediction\<close>, \<^verbatim>\<open>all_predictions\<close>,
  \<^verbatim>\<open>model_confidences\<close> and \<^verbatim>\<open>features_used\<close>.
\<close>

theorem fallback_lacks_fields:
  "predict_optimal_fee sample_world sample_config sample_predictor (Some empty_snapshot) =
     fallback_prediction sample_world sample_config \<and>
   map fst (predict_optimal_fee sample_world sample_config sample_predictor
              (Some empty_snapshot)) = fallback_fields \<and>
   map_of (predict_optimal_fee sample_world sample_config sample_predictor
             (Some empty_snapshot)) ''ensemble_prediction'' = None \<and>
   map_of (predict_optimal_fee sample_world sample_config sample_predictor
             (Some empty_snapshot)) ''all_predictions'' = None \<and>
   map_of (predict_optimal_fee sample_world sample_config sample_predictor
             (Some empty_snapshot)) ''model_confidences'' = None \<and>
   map_of (predict_optimal_fee sample_world sample_config sample_predictor
             (Some empty_snapshot)) ''features_used'' = None"
proof -
  have "no_coingecko empty_snapshot"
    by (simp add: no_coingecko_def empty_snapshot_def dict_get_def)
  then have "predict_optimal_fee sample_world sample_config sample_predictor
      (Some empty_snapshot) = fallback_prediction sample_world sample_config"
    by (simp add: predict_no_coingecko)
  then show ?thesis
    by (simp add: fallback_prediction_def fallback_fields_def)
qed

text \<open>
  C5, amended. For every snapshot, live fetch, training run, predictor (also with members
  that raise), clock and base fee, the prediction returns a record and raises nothing: the
  record with the ten fields of the specification, in their order, or the fallback record
  with the six fields \<^verbatim>\<open>recommended_fee\<close>, \<^verbatim>\<open>confidence\<close>, \<^verbatim>\<open>reasoning\<close>,
  \<^verbatim>\<open>market_condition\<close>, \<^verbatim>\<open>primary_model\<close> and \<^verbatim>\<open>prediction_timestamp\<close>.
\<close>

theorem predict_returns_a_record:
  "(map fst (predict_optimal_fee w cfg self market_data) = full_fields \<or>
    predict_optimal_fee w cfg self market_data = fallback_prediction w cfg) \<and>
   map fst (fallback_prediction w cfg) = fallback_fields \<and>
   fallback_fields =
     [''recommended_fee'', ''confidence'', ''reasoning'', ''market_condition'',
      ''primary_model'', ''prediction_timestamp''] \<and>
   full_fields =
     [''recommended_fee'', ''confidence'', ''reasoning'', ''market_condition'',
      ''primary_model'', ''ensemble_prediction'', ''all_predictions'', ''model_confidences'',
      ''features_used'', ''prediction_timestamp'']"
  using predict_shape [of w cfg self market_data]
  by (auto simp add: fallback_prediction_def fallback_fields_def full_fields_def)

text \<open>
  C3, as stated, fails: with predictions 0.2 and 0.4, confidences 0.87 and 0.84 and a best
  model that is not in the map, the final fee is 0.3, the plain mean, while the mean
  weighted by the confidences is 17/57; that one is returned as the ensemble prediction.
\<close>

theorem final_fee_is_plain_mean:
  "blend [(''random_forest'', 0.2), (''gradient_boosting'', 0.4)]
         [(''random_forest'', 0.87), (''gradient_boosting'', 0.84)] (Some ''neural_network'') =
     Inr ((NumpyFloat, 0.3), 0.855, 17 / 57) \<and>
   np_mean [0.2, 0.4] = 0.3 \<and>
   weighted_mean [0.2, 0.4] [0.87, 0.84] = 17 / 57 \<and>
   np_mean [0.2, 0.4] \<noteq> weighted_mean [0.2, 0.4] [0.87, 0.84]"
  using blend_of_sample by (simp add: np_mean_def weighted_mean_def)

text \<open>
  C3, amended. For every non-empty map of predictions and the map of confidences with the
  same keys, the final fee is the prediction of the best model when that model is named
  and in the map, and otherwise the plain arithmetic mean of all predictions, clamped to
  [0.05, 2.5] in both cases. The confidence reported with it is the best model's, or the
  mean of the confidences. The mean weighted by the confidences is the ensemble prediction
  (the unclamped primary prediction when the confidences do not sum to a positive number).
\<close>

theorem blended_final_fee:
  assumes "predictions \<noteq> []" and "distinct (map fst predictions)"
    and "map fst confidences = map fst predictions"
  shows "(let p = (case best_member best predictions of
                 Some v \<Rightarrow> v | None \<Rightarrow> np_mean (map snd predictions));
          c = (case best_member best confidences of
                 Some v \<Rightarrow> v | None \<Rightarrow> np_mean (map snd confidences));
          e = (if sum_list (map snd confidences) > 0
               then weighted_mean (map snd predictions) (map snd confidences) else p)
      in blend predictions confidences best =
           Inr ((kind_of_final p, max 0.05 (min p 2.5)), c, e) \<and>
         0.05 \<le> max 0.05 (min p 2.5) \<and> max 0.05 (min p 2.5) \<le> 2.5)"
  using blend_aligned [OF assms(2,3), of best] by (simp add: Let_def)

theorem blended_final_fee_witness:
  "[(''random_forest'', 0.2), (''gradient_boosting'', 0.4)] \<noteq> ([] :: (string \<times> real) list) \<and>
   distinct (map fst [(''random_forest'', 0.2 :: real), (''gradient_boosting'', 0.4)]) \<and>
   map fst [(''random_forest'', 0.87 :: real), (''gradient_boosting'', 0.84)] =
     map fst [(''random_forest'', 0.2 :: real), (''gradient_boosting'', 0.4)] \<and>
   blend [(''random_forest'', 0.2), (''gradient_boosting'', 0.4)]
         [(''random_forest'', 0.87), (''gradient_boosting'', 0.84)] (Some ''gradient_boosting'') =
     Inr ((NumpyFloat, 0.4), 0.84, 17 / 57)"
  using blended_final_fee
          [of "[(''random_forest'', 0.2), (''gradient_boosting'', 0.4)]"
              "[(''random_forest'', 0.87), (''gradient_boosting'', 0.84)]"
              "Some ''gradient_boosting''"]
  by (simp add: best_member_def weighted_mean_def kind_of_final_def Let_def)

end
